theory Spec2Isabelle
  imports Complex_Main
begin

section \<open>Custom resource activities of chaosk8s (src/chaosk8s/crd/actions.py)\<close>

text \<open>
  The module is a set of thin wrappers around the Kubernetes custom objects API. Each
  Python function becomes a HOL function of the same name. What the Python does beyond
  returning a value is written out: an exception is the \<open>Inl\<close> of a sum, the file
  reads and API requests a call performs are returned as a list of events, and the
  libraries and the world the module talks to (the JSON and YAML parsers, the file
  system, the API client factory and the API server) are the fields of an environment
  that every operation takes as its first argument.
\<close>

subsection \<open>Python values and exceptions\<close>

text \<open>
  The values \<open>json.loads\<close> and \<open>yaml.safe_load\<close> return: \<open>None\<close>, booleans,
  integers, floats, strings, lists and dictionaries with string keys. A dictionary is an
  association list read with \<open>map_of\<close>.
\<close>

datatype pyval =
    PNone
  | PBool bool
  | PInt int
  | PFloat real
  | PStr string
  | PList "pyval list"
  | PDict "(string \<times> pyval) list"

text \<open>
  The exceptions that can leave the module. \<open>ActivityFailed\<close> is the only one the
  module raises itself and carries its message; the others are raised by Python or by
  a library and are kept by class.
\<close>

datatype error =
    ActivityFailed string
  | AttributeError
  | ValueError
  | IndexError
  | TypeError
  | JSONDecodeError
  | YAMLError
  | OSError

text \<open>Python's truth value of an object, as \<open>not x\<close> tests it.\<close>

fun truthy :: "pyval \<Rightarrow> bool" where
  "truthy PNone = False"
| "truthy (PBool b) = b"
| "truthy (PInt i) = (i \<noteq> 0)"
| "truthy (PFloat x) = (x \<noteq> 0)"
| "truthy (PStr s) = (s \<noteq> [])"
| "truthy (PList xs) = (xs \<noteq> [])"
| "truthy (PDict kvs) = (kvs \<noteq> [])"

text \<open>
  \<open>obj.get(key, default)\<close>: only a dictionary has the method; on any other value
  the attribute lookup raises \<open>AttributeError\<close>.
\<close>

definition py_get :: "pyval \<Rightarrow> string \<Rightarrow> pyval \<Rightarrow> error + pyval" where
  "py_get obj key dflt =
     (case obj of
        PDict kvs \<Rightarrow> Inr (case map_of kvs key of Some v \<Rightarrow> v | None \<Rightarrow> dflt)
      | _ \<Rightarrow> Inl AttributeError)"

text \<open>
  The receiver of a \<open>str\<close> method call (\<open>rsplit\<close>, \<open>lower\<close>): a string has the
  method, every other value of \<open>pyval\<close> raises \<open>AttributeError\<close>.
\<close>

definition as_str :: "pyval \<Rightarrow> error + string" where
  "as_str v = (case v of PStr s \<Rightarrow> Inr s | _ \<Rightarrow> Inl AttributeError)"

subsection \<open>String operations of Python used by the module\<close>

text \<open>
  Strings are byte strings. \<open>str.lower\<close> maps the ASCII letters \<open>A\<close> to
  \<open>Z\<close> to lower case and leaves every other character as it is (kind names are
  ASCII).
\<close>

definition lower_char :: "char \<Rightarrow> char" where
  "lower_char c =
     (case map_of (zip ''ABCDEFGHIJKLMNOPQRSTUVWXYZ'' ''abcdefghijklmnopqrstuvwxyz'') c of
        Some d \<Rightarrow> d
      | None \<Rightarrow> c)"

definition lower :: "string \<Rightarrow> string" where
  "lower s = map lower_char s"

text \<open>\<open>s[-1]\<close>: the last character, \<open>IndexError\<close> on the empty string.\<close>

definition index_last :: "string \<Rightarrow> error + char" where
  "index_last s = (if s = [] then Inl IndexError else Inr (last s))"

text \<open>
  \<open>s.rsplit(sep, 1)\<close> for a one-character separator: the string is cut at the last
  occurrence of the separator, and is returned whole in a one-element list when the
  separator does not occur.
\<close>

definition rsplit1 :: "char \<Rightarrow> string \<Rightarrow> string list" where
  "rsplit1 sep s =
     (if sep \<in> set s
      then [rev (tl (dropWhile (\<lambda>c. c \<noteq> sep) (rev s))), rev (takeWhile (\<lambda>c. c \<noteq> sep) (rev s))]
      else [s])"

text \<open>
  \<open>a, b = xs\<close>: unpacking into two names raises \<open>ValueError\<close> unless the list has
  exactly two elements.
\<close>

definition unpack2 :: "string list \<Rightarrow> error + string \<times> string" where
  "unpack2 xs = (case xs of [a, b] \<Rightarrow> Inr (a, b) | _ \<Rightarrow> Inl ValueError)"

subsection \<open>The pluralizer\<close>

text \<open>
  \<^verbatim>\<open>
  def get_plural(singular: str) -> str:
      singular = singular.lower()
      if singular == "endpoints":
          return singular
      last = singular[-1]
      if last == "s":
          return singular + "es"
      elif last == "y":
          return singular[:-1] + "ies"
      return singular + "s"
  \<close>
\<close>

definition get_plural :: "string \<Rightarrow> error + string" where
  "get_plural singular0 =
     (let singular = lower singular0 in
      if singular = ''endpoints'' then Inr singular
      else
        (case index_last singular of
           Inl e \<Rightarrow> Inl e
         | Inr lst \<Rightarrow>
             if lst = CHR ''s'' then Inr (singular @ ''es'')
             else if lst = CHR ''y'' then Inr (butlast singular @ ''ies'')
             else Inr (singular @ ''s'')))"

text \<open>
  The pluralizer as the specification words it (section 4.2): lower-case the input;
  \<open>endpoints\<close> maps to itself; a string ending in \<open>s\<close> gets \<open>es\<close>; one ending in
  \<open>y\<close> loses the \<open>y\<close> and gets \<open>ies\<close>; any other gets \<open>s\<close>.
\<close>

definition ends_in :: "string \<Rightarrow> char \<Rightarrow> bool" where
  "ends_in s c = (s \<noteq> [] \<and> last s = c)"

definition pluralize_spec :: "string \<Rightarrow> string" where
  "pluralize_spec kind =
     (let l = lower kind in
      if l = ''endpoints'' then l
      else if ends_in l CHR ''s'' then l @ ''es''
      else if ends_in l CHR ''y'' then butlast l @ ''ies''
      else l @ ''s'')"

subsection \<open>The API client, the server and the environment\<close>

text \<open>
  The methods of \<open>kubernetes.client.CustomObjectsApi\<close> the module calls, each with
  the arguments the module passes, in the order it passes them. The namespace and the
  body of a create call are Python values: \<open>apply_from_json\<close> and
  \<open>apply_from_yaml\<close> pass whatever the document holds.
\<close>

datatype api_call =
    Create_namespaced_custom_object string string pyval string pyval
  | Delete_namespaced_custom_object string string string string string
  | Create_cluster_custom_object string string string pyval
  | Delete_cluster_custom_object string string string string
  | Patch_namespaced_custom_object string string string string string pyval
  | Replace_namespaced_custom_object string string string string string pyval bool
  | Patch_cluster_custom_object string string string string pyval
  | Replace_cluster_custom_object string string string string pyval bool

text \<open>
  The API client object: the module reads and writes only its default headers. A
  request is the method called together with the default headers the client holds at
  the time of the call, which the client sends with it.
\<close>

record api_client =
  default_headers :: "string \<Rightarrow> string option"

record request =
  api_method :: api_call
  header_params :: "string \<Rightarrow> string option"

record http_response =
  status :: int
  reason :: string
  data :: string

text \<open>\<open>kubernetes.client.rest.ApiException\<close>: the fields the module reads.\<close>

record api_exception =
  x_status :: int
  x_reason :: string
  x_body :: string

text \<open>What a call does to the world, in order: file reads and API requests.\<close>

datatype event =
    ReadFile string
  | ApiRequest request

text \<open>
  The environment: the libraries and the world outside the module. \<open>json_loads\<close>
  is \<open>json.loads\<close>, \<open>yaml_safe_load\<close> is \<open>yaml.safe_load\<close>, \<open>isfile\<close> is
  \<open>os.path.isfile\<close>, \<open>read_file\<close> is \<open>open(path).read()\<close>,
  \<open>create_k8s_api_client\<close> is the client factory of the package (it is not part of
  this module), and \<open>respond\<close> is the API server's answer to a request.
\<close>

record 's env =
  json_loads :: "string \<Rightarrow> error + pyval"
  yaml_safe_load :: "string \<Rightarrow> error + pyval"
  isfile :: "string \<Rightarrow> bool"
  read_file :: "string \<Rightarrow> error + string"
  create_k8s_api_client :: "'s \<Rightarrow> api_client"
  respond :: "request \<Rightarrow> http_response"

text \<open>
  A method of the API client called with \<open>_preload_content=False\<close>. The client
  library is not among the sources; it is modelled by what the module relies on: the
  call is sent, the method returns the response's data for a status from 200 to 299 and
  raises \<open>ApiException\<close>, holding the status, the reason and the body of the
  response, for any other status. The body is taken as text. The checks the client
  makes on its own arguments before it sends anything (a required argument that is
  \<open>None\<close>, a keyword the method does not know) are not modelled: an event
  \<open>ApiRequest\<close> records the call the module makes on the client.
\<close>

definition call_api :: "'s env \<Rightarrow> request \<Rightarrow> api_exception + string" where
  "call_api env req =
     (let r = respond env req in
      if 200 \<le> status r \<and> status r \<le> 299 then Inr (data r)
      else Inl \<lparr>x_status = status r, x_reason = reason r, x_body = data r\<rparr>)"

text \<open>\<open>api_client.set_default_header(name, value)\<close>.\<close>

definition set_default_header :: "api_client \<Rightarrow> string \<Rightarrow> string \<Rightarrow> api_client" where
  "set_default_header c name val = c\<lparr>default_headers := (default_headers c)(name \<mapsto> val)\<rparr>"

subsection \<open>The resource loader\<close>

text \<open>
  \<^verbatim>\<open>
  def load_body(body_as_object=None, body_as_yaml_file=None):
      if (body_as_object is None) and (not body_as_yaml_file):
          raise ActivityFailed(
              "Either `body_as_object` or `body_as_yaml_file` must be set")
      if body_as_object is not None:
          return body_as_object
      if not os.path.isfile(body_as_yaml_file):
          raise ActivityFailed(
              f"Path '{body_as_yaml_file}' is not a valid resource file")
      else:
          with open(body_as_yaml_file) as f:
              return yaml.safe_load(f.read())
  \<close>
  The file path is \<open>None\<close> or a string; \<open>not body_as_yaml_file\<close> holds for
  \<open>None\<close> and for the empty string. \<open>os.path.isfile(None)\<close> raises
  \<open>TypeError\<close>; the first test keeps the call from getting there. The object is
  \<open>PNone\<close> when the caller gave none.
\<close>

definition path_unset :: "string option \<Rightarrow> bool" where
  "path_unset p = (case p of None \<Rightarrow> True | Some s \<Rightarrow> s = [])"

definition load_body :: "'s env \<Rightarrow> pyval \<Rightarrow> string option \<Rightarrow> event list \<times> (error + pyval)" where
  "load_body env body_as_object body_as_yaml_file =
     (if body_as_object = PNone \<and> path_unset body_as_yaml_file
      then ([], Inl (ActivityFailed ''Either `body_as_object` or `body_as_yaml_file` must be set''))
      else if body_as_object \<noteq> PNone then ([], Inr body_as_object)
      else
        (case body_as_yaml_file of
           None \<Rightarrow> ([], Inl TypeError)
         | Some path \<Rightarrow>
             if \<not> isfile env path
             then ([], Inl (ActivityFailed (''Path '' @ [CHR 0x27] @ path @ [CHR 0x27]
                                            @ '' is not a valid resource file'')))
             else
               (case read_file env path of
                  Inl e \<Rightarrow> ([ReadFile path], Inl e)
                | Inr content \<Rightarrow> ([ReadFile path], yaml_safe_load env content))))"

subsection \<open>Create, delete, patch and replace\<close>

text \<open>
  Every operation builds its client, loads the body where it has one, issues one API
  call and decodes the answer. In the \<open>try\<close> block only \<open>ApiException\<close> is
  caught: an error of \<open>json.loads\<close> on the response propagates. The debug line
  the create operations log on a 409 is not an event of the model. The message of
  \<open>ActivityFailed\<close> is the Python string the source builds: an f-string where the
  source has one, the literal text where it has a plain string.
\<close>

definition create_custom_object ::
  "'s env \<Rightarrow> string \<Rightarrow> string \<Rightarrow> string \<Rightarrow> pyval \<Rightarrow> pyval \<Rightarrow> string option \<Rightarrow> 's
     \<Rightarrow> event list \<times> (error + pyval)" where
  "create_custom_object env grp version plural ns resource resource_as_yaml_file secrets =
     (let api = create_k8s_api_client env secrets in
      case load_body env resource resource_as_yaml_file of
        (t, Inl e) \<Rightarrow> (t, Inl e)
      | (t, Inr body) \<Rightarrow>
          (let req = \<lparr>api_method = Create_namespaced_custom_object grp version ns plural body,
                      header_params = default_headers api\<rparr>
           in case call_api env req of
                Inr d \<Rightarrow> (t @ [ApiRequest req], json_loads env d)
              | Inl x \<Rightarrow>
                  if x_status x = 409
                  then (t @ [ApiRequest req], json_loads env (x_body x))
                  else (t @ [ApiRequest req],
                        Inl (ActivityFailed (''Failed to create custom resource object: ''
                               @ [CHR 0x27] @ x_reason x @ [CHR 0x27] @ '' '' @ x_body x)))))"

definition delete_custom_object ::
  "'s env \<Rightarrow> string \<Rightarrow> string \<Rightarrow> string \<Rightarrow> string \<Rightarrow> string \<Rightarrow> 's
     \<Rightarrow> event list \<times> (error + pyval)" where
  "delete_custom_object env grp version plural name ns secrets =
     (let api = create_k8s_api_client env secrets;
          req = \<lparr>api_method = Delete_namespaced_custom_object grp version ns plural name,
                 header_params = default_headers api\<rparr>
      in case call_api env req of
           Inr d \<Rightarrow> ([ApiRequest req], json_loads env d)
         | Inl x \<Rightarrow>
             ([ApiRequest req],
              Inl (ActivityFailed (''Failed to delete custom resource object: ''
                     @ [CHR 0x27] @ x_reason x @ [CHR 0x27] @ '' '' @ x_body x))))"

definition create_cluster_custom_object ::
  "'s env \<Rightarrow> string \<Rightarrow> string \<Rightarrow> string \<Rightarrow> pyval \<Rightarrow> string option \<Rightarrow> 's
     \<Rightarrow> event list \<times> (error + pyval)" where
  "create_cluster_custom_object env grp version plural resource resource_as_yaml_file secrets =
     (let api = create_k8s_api_client env secrets in
      case load_body env resource resource_as_yaml_file of
        (t, Inl e) \<Rightarrow> (t, Inl e)
      | (t, Inr body) \<Rightarrow>
          (let req = \<lparr>api_method = Create_cluster_custom_object grp version plural body,
                      header_params = default_headers api\<rparr>
           in case call_api env req of
                Inr d \<Rightarrow> (t @ [ApiRequest req], json_loads env d)
              | Inl x \<Rightarrow>
                  if x_status x = 409
                  then (t @ [ApiRequest req], json_loads env (x_body x))
                  else (t @ [ApiRequest req],
                        Inl (ActivityFailed
                          ''Failed to create custom resource object: '{x.reason}' {x.body}''))))"

definition delete_cluster_custom_object ::
  "'s env \<Rightarrow> string \<Rightarrow> string \<Rightarrow> string \<Rightarrow> string \<Rightarrow> 's
     \<Rightarrow> event list \<times> (error + pyval)" where
  "delete_cluster_custom_object env grp version plural name secrets =
     (let api = create_k8s_api_client env secrets;
          req = \<lparr>api_method = Delete_cluster_custom_object grp version plural name,
                 header_params = default_headers api\<rparr>
      in case call_api env req of
           Inr d \<Rightarrow> ([ApiRequest req], json_loads env d)
         | Inl x \<Rightarrow>
             ([ApiRequest req],
              Inl (ActivityFailed (''Failed to delete custom resource object: ''
                     @ [CHR 0x27] @ x_reason x @ [CHR 0x27] @ '' '' @ x_body x))))"

text \<open>
  The two patch operations take \<open>force\<close> and set the client's default
  \<open>Content-Type\<close> header before the call; the call itself is
  \<^verbatim>\<open>api.patch_namespaced_custom_object(group, version, ns, plural, name, body,
  _preload_content=False)\<close>.
\<close>

definition patch_custom_object ::
  "'s env \<Rightarrow> string \<Rightarrow> string \<Rightarrow> string \<Rightarrow> string \<Rightarrow> string \<Rightarrow> bool \<Rightarrow> pyval
     \<Rightarrow> string option \<Rightarrow> 's \<Rightarrow> event list \<times> (error + pyval)" where
  "patch_custom_object env grp version plural name ns force resource resource_as_yaml_file secrets =
     (let api = create_k8s_api_client env secrets in
      case load_body env resource resource_as_yaml_file of
        (t, Inl e) \<Rightarrow> (t, Inl e)
      | (t, Inr body) \<Rightarrow>
          (let api' = set_default_header api ''Content-Type'' ''application/json-patch+json'';
               req = \<lparr>api_method = Patch_namespaced_custom_object grp version ns plural name body,
                      header_params = default_headers api'\<rparr>
           in case call_api env req of
                Inr d \<Rightarrow> (t @ [ApiRequest req], json_loads env d)
              | Inl x \<Rightarrow>
                  (t @ [ApiRequest req],
                   Inl (ActivityFailed (''Failed to patch custom resource object: ''
                          @ [CHR 0x27] @ x_reason x @ [CHR 0x27] @ '' '' @ x_body x)))))"

definition replace_custom_object ::
  "'s env \<Rightarrow> string \<Rightarrow> string \<Rightarrow> string \<Rightarrow> string \<Rightarrow> string \<Rightarrow> bool \<Rightarrow> pyval
     \<Rightarrow> string option \<Rightarrow> 's \<Rightarrow> event list \<times> (error + pyval)" where
  "replace_custom_object env grp version plural name ns force resource resource_as_yaml_file secrets =
     (let api = create_k8s_api_client env secrets in
      case load_body env resource resource_as_yaml_file of
        (t, Inl e) \<Rightarrow> (t, Inl e)
      | (t, Inr body) \<Rightarrow>
          (let req = \<lparr>api_method =
                        Replace_namespaced_custom_object grp version ns plural name body force,
                      header_params = default_headers api\<rparr>
           in case call_api env req of
                Inr d \<Rightarrow> (t @ [ApiRequest req], json_loads env d)
              | Inl x \<Rightarrow>
                  (t @ [ApiRequest req],
                   Inl (ActivityFailed (''Failed to replace custom resource object: ''
                          @ [CHR 0x27] @ x_reason x @ [CHR 0x27] @ '' '' @ x_body x)))))"

definition patch_cluster_custom_object ::
  "'s env \<Rightarrow> string \<Rightarrow> string \<Rightarrow> string \<Rightarrow> string \<Rightarrow> bool \<Rightarrow> pyval
     \<Rightarrow> string option \<Rightarrow> 's \<Rightarrow> event list \<times> (error + pyval)" where
  "patch_cluster_custom_object env grp version plural name force resource resource_as_yaml_file secrets =
     (let api = create_k8s_api_client env secrets in
      case load_body env resource resource_as_yaml_file of
        (t, Inl e) \<Rightarrow> (t, Inl e)
      | (t, Inr body) \<Rightarrow>
          (let api' = set_default_header api ''Content-Type'' ''application/json-patch+json'';
               req = \<lparr>api_method = Patch_cluster_custom_object grp version plural name body,
                      header_params = default_headers api'\<rparr>
           in case call_api env req of
                Inr d \<Rightarrow> (t @ [ApiRequest req], json_loads env d)
              | Inl x \<Rightarrow>
                  (t @ [ApiRequest req],
                   Inl (ActivityFailed (''Failed to patch custom resource object: ''
                          @ [CHR 0x27] @ x_reason x @ [CHR 0x27] @ '' '' @ x_body x)))))"

definition replace_cluster_custom_object ::
  "'s env \<Rightarrow> string \<Rightarrow> string \<Rightarrow> string \<Rightarrow> string \<Rightarrow> bool \<Rightarrow> pyval
     \<Rightarrow> string option \<Rightarrow> 's \<Rightarrow> event list \<times> (error + pyval)" where
  "replace_cluster_custom_object env grp version plural name force resource resource_as_yaml_file secrets =
     (let api = create_k8s_api_client env secrets in
      case load_body env resource resource_as_yaml_file of
        (t, Inl e) \<Rightarrow> (t, Inl e)
      | (t, Inr body) \<Rightarrow>
          (let req = \<lparr>api_method =
                        Replace_cluster_custom_object grp version plural name body force,
                      header_params = default_headers api\<rparr>
           in case call_api env req of
                Inr d \<Rightarrow> (t @ [ApiRequest req], json_loads env d)
              | Inl x \<Rightarrow>
                  (t @ [ApiRequest req],
                   Inl (ActivityFailed (''Failed to replace custom resource object: ''
                          @ [CHR 0x27] @ x_reason x @ [CHR 0x27] @ '' '' @ x_body x)))))"

subsection \<open>Applying a document\<close>

text \<open>
  \<^verbatim>\<open>
  def apply_from_json(resource: str = None, secrets: Secrets = None):
      obj = json.loads(resource)
      api_version = obj.get("apiVersion")
      kind = obj.get("kind")
      ns = obj.get("metadata", {}).get("namespace", "default")
      if not api_version:
          raise ActivityFailed("missing apiVersion in resource")
      if not kind:
          raise ActivityFailed("missing kind in resource")
      group, version = api_version.rsplit("/", 1)
      plural = get_plural(kind)
      return create_custom_object(group, version, plural, ns, resource, secrets=secrets)
  \<close>
  \<open>apply_from_yaml\<close> is the same text with \<open>yaml.safe_load\<close> for \<open>json.loads\<close>.
  The statements run in the source's order, each able to raise; the body handed to
  \<open>create_custom_object\<close> is \<open>resource\<close>, the text the caller gave.
\<close>

text \<open>
  A statement that computes a value without touching the world and may raise: an
  exception ends the call with no event, a value is passed on to the rest of the body.
\<close>

definition eval_then ::
  "error + 'a \<Rightarrow> ('a \<Rightarrow> event list \<times> (error + 'b)) \<Rightarrow> event list \<times> (error + 'b)" where
  "eval_then m rest = (case m of Inl e \<Rightarrow> ([], Inl e) | Inr x \<Rightarrow> rest x)"

definition apply_from_json :: "'s env \<Rightarrow> string \<Rightarrow> 's \<Rightarrow> event list \<times> (error + pyval)" where
  "apply_from_json env resource secrets =
     eval_then (json_loads env resource) (\<lambda>obj.
     eval_then (py_get obj ''apiVersion'' PNone) (\<lambda>api_version.
     eval_then (py_get obj ''kind'' PNone) (\<lambda>kind.
     eval_then (py_get obj ''metadata'' (PDict [])) (\<lambda>metadata.
     eval_then (py_get metadata ''namespace'' (PStr ''default'')) (\<lambda>ns.
       if \<not> truthy api_version
       then ([], Inl (ActivityFailed ''missing apiVersion in resource''))
       else if \<not> truthy kind
       then ([], Inl (ActivityFailed ''missing kind in resource''))
       else
         eval_then (as_str api_version) (\<lambda>av.
         eval_then (unpack2 (rsplit1 CHR ''/'' av)) (\<lambda>(grp, version).
         eval_then (as_str kind) (\<lambda>k.
         eval_then (get_plural k) (\<lambda>plural.
           create_custom_object env grp version plural ns (PStr resource) None
             secrets)))))))))"

definition apply_from_yaml :: "'s env \<Rightarrow> string \<Rightarrow> 's \<Rightarrow> event list \<times> (error + pyval)" where
  "apply_from_yaml env resource secrets =
     eval_then (yaml_safe_load env resource) (\<lambda>obj.
     eval_then (py_get obj ''apiVersion'' PNone) (\<lambda>api_version.
     eval_then (py_get obj ''kind'' PNone) (\<lambda>kind.
     eval_then (py_get obj ''metadata'' (PDict [])) (\<lambda>metadata.
     eval_then (py_get metadata ''namespace'' (PStr ''default'')) (\<lambda>ns.
       if \<not> truthy api_version
       then ([], Inl (ActivityFailed ''missing apiVersion in resource''))
       else if \<not> truthy kind
       then ([], Inl (ActivityFailed ''missing kind in resource''))
       else
         eval_then (as_str api_version) (\<lambda>av.
         eval_then (unpack2 (rsplit1 CHR ''/'' av)) (\<lambda>(grp, version).
         eval_then (as_str kind) (\<lambda>k.
         eval_then (get_plural k) (\<lambda>plural.
           create_custom_object env grp version plural ns (PStr resource) None
             secrets)))))))))"

text \<open>
  The statements \<open>apply_from_json\<close> and \<open>apply_from_yaml\<close> share once the
  document is parsed, named so that a fact about them is proved once for both.
\<close>

definition apply_document :: "'s env \<Rightarrow> pyval \<Rightarrow> string \<Rightarrow> 's \<Rightarrow> event list \<times> (error + pyval)" where
  "apply_document env obj resource secrets =
     eval_then (py_get obj ''apiVersion'' PNone) (\<lambda>api_version.
     eval_then (py_get obj ''kind'' PNone) (\<lambda>kind.
     eval_then (py_get obj ''metadata'' (PDict [])) (\<lambda>metadata.
     eval_then (py_get metadata ''namespace'' (PStr ''default'')) (\<lambda>ns.
       if \<not> truthy api_version
       then ([], Inl (ActivityFailed ''missing apiVersion in resource''))
       else if \<not> truthy kind
       then ([], Inl (ActivityFailed ''missing kind in resource''))
       else
         eval_then (as_str api_version) (\<lambda>av.
         eval_then (unpack2 (rsplit1 CHR ''/'' av)) (\<lambda>(grp, version).
         eval_then (as_str kind) (\<lambda>k.
         eval_then (get_plural k) (\<lambda>plural.
           create_custom_object env grp version plural ns (PStr resource) None
             secrets))))))))"

text \<open>
  The namespace expression of both functions,
  \<^verbatim>\<open>obj.get("metadata", {}).get("namespace", "default")\<close>, on its own.
\<close>

definition document_namespace :: "pyval \<Rightarrow> error + pyval" where
  "document_namespace obj =
     (case py_get obj ''metadata'' (PDict []) of
        Inl e \<Rightarrow> Inl e
      | Inr metadata \<Rightarrow> py_get metadata ''namespace'' (PStr ''default''))"

subsection \<open>Vocabulary of the properties\<close>

text \<open>The API requests among the events of a call, in order.\<close>

fun api_requests :: "event list \<Rightarrow> request list" where
  "api_requests [] = []"
| "api_requests (ReadFile p # es) = api_requests es"
| "api_requests (ApiRequest r # es) = r # api_requests es"

text \<open>\<open>sub in s\<close> on strings: \<open>sub\<close> occurs in \<open>s\<close> as a contiguous run.\<close>

fun starts_with :: "string \<Rightarrow> string \<Rightarrow> bool" where
  "starts_with s [] = True"
| "starts_with [] (p # ps) = False"
| "starts_with (c # s) (p # ps) = (c = p \<and> starts_with s ps)"

fun contains :: "string \<Rightarrow> string \<Rightarrow> bool" where
  "contains [] sub = (sub = [])"
| "contains (c # s) sub = (starts_with (c # s) sub \<or> contains s sub)"

text \<open>
  A parsed document lacks a top-level key: it is a dictionary without the key, or not a
  dictionary at all.
\<close>

definition missing_key :: "pyval \<Rightarrow> string \<Rightarrow> bool" where
  "missing_key doc key = (case doc of PDict kvs \<Rightarrow> map_of kvs key = None | _ \<Rightarrow> True)"

text \<open>The \<open>metadata\<close> entry of a document is absent or is itself a dictionary.\<close>

definition metadata_absent_or_mapping :: "(string \<times> pyval) list \<Rightarrow> bool" where
  "metadata_absent_or_mapping kvs =
     (case map_of kvs ''metadata'' of None \<Rightarrow> True | Some (PDict md) \<Rightarrow> True | Some _ \<Rightarrow> False)"

text \<open>
  \<open>metadata.namespace\<close> is absent from a document: there is no \<open>metadata\<close> entry,
  or the entry is a dictionary without the key \<open>namespace\<close>, or the entry is not a
  dictionary.
\<close>

definition namespace_absent :: "pyval \<Rightarrow> bool" where
  "namespace_absent doc =
     (case doc of
        PDict kvs \<Rightarrow>
          (case map_of kvs ''metadata'' of
             None \<Rightarrow> True
           | Some (PDict md) \<Rightarrow> map_of md ''namespace'' = None
           | Some _ \<Rightarrow> True)
      | _ \<Rightarrow> True)"

text \<open>
  A call has failed with an \<open>ActivityFailed\<close> whose message holds the reason and
  the body of the server's answer.
\<close>

definition failed_with :: "event list \<times> (error + pyval) \<Rightarrow> http_response \<Rightarrow> bool" where
  "failed_with outcome answer =
     (\<exists>msg. snd outcome = Inl (ActivityFailed msg)
            \<and> contains msg (reason answer) \<and> contains msg (data answer))"

subsection \<open>A concrete environment\<close>

text \<open>
  Documents and an environment on which the properties below are evaluated: a parser
  that knows a handful of texts, one resource file, a client without default headers
  and a server that gives the same answer to every request.
\<close>

definition widget_text :: string where
  \<open>widget_text = ''{"apiVersion":"example.com/v1","kind":"Widget","metadata":{"namespace":"ns1"},"spec":{"size":3}}''\<close>

definition widget_doc :: pyval where
  "widget_doc =
     PDict [(''apiVersion'', PStr ''example.com/v1''), (''kind'', PStr ''Widget''),
            (''metadata'', PDict [(''namespace'', PStr ''ns1'')]),
            (''spec'', PDict [(''size'', PInt 3)])]"

definition gadget_text :: string where
  \<open>gadget_text = ''{"apiVersion":"example.com/v1","kind":"Gadget","metadata":{"name":"g1"}}''\<close>

definition gadget_doc :: pyval where
  "gadget_doc =
     PDict [(''apiVersion'', PStr ''example.com/v1''), (''kind'', PStr ''Gadget''),
            (''metadata'', PDict [(''name'', PStr ''g1'')])]"

definition null_metadata_text :: string where
  \<open>null_metadata_text = ''{"kind":"Widget","metadata":null}''\<close>

definition null_metadata_doc :: pyval where
  "null_metadata_doc = PDict [(''kind'', PStr ''Widget''), (''metadata'', PNone)]"

definition no_kind_text :: string where
  \<open>no_kind_text = ''{"apiVersion":"example.com/v1"}''\<close>

definition no_kind_doc :: pyval where
  "no_kind_doc = PDict [(''apiVersion'', PStr ''example.com/v1'')]"

definition no_slash_text :: string where
  \<open>no_slash_text = ''{"apiVersion":"v1","kind":"Widget"}''\<close>

definition no_slash_doc :: pyval where
  "no_slash_doc = PDict [(''apiVersion'', PStr ''v1''), (''kind'', PStr ''Widget'')]"

definition two_slash_text :: string where
  \<open>two_slash_text = ''{"apiVersion":"apps/example.com/v1","kind":"Widget"}''\<close>

definition two_slash_doc :: pyval where
  "two_slash_doc = PDict [(''apiVersion'', PStr ''apps/example.com/v1''), (''kind'', PStr ''Widget'')]"

definition status_text :: string where
  \<open>status_text = ''{"kind":"Status","reason":"AlreadyExists","code":409}''\<close>

definition status_doc :: pyval where
  "status_doc =
     PDict [(''kind'', PStr ''Status''), (''reason'', PStr ''AlreadyExists''), (''code'', PInt 409)]"

definition demo_loads :: "string \<Rightarrow> error + pyval" where
  "demo_loads s =
     (case map_of [(widget_text, widget_doc), (gadget_text, gadget_doc),
                   (null_metadata_text, null_metadata_doc), (no_kind_text, no_kind_doc),
                   (no_slash_text, no_slash_doc), (two_slash_text, two_slash_doc),
                   (status_text, status_doc)] s of
        Some doc \<Rightarrow> Inr doc
      | None \<Rightarrow> Inl JSONDecodeError)"

definition demo_env :: "http_response \<Rightarrow> unit env" where
  "demo_env answer =
     \<lparr>json_loads = demo_loads,
      yaml_safe_load = demo_loads,
      isfile = (\<lambda>path. path = ''widget.yaml''),
      read_file = (\<lambda>path. if path = ''widget.yaml'' then Inr widget_text else Inl OSError),
      create_k8s_api_client = (\<lambda>secrets. \<lparr>default_headers = Map.empty\<rparr>),
      respond = (\<lambda>req. answer)\<rparr>"

definition conflict_answer :: http_response where
  "conflict_answer = \<lparr>status = 409, reason = ''Conflict'', data = status_text\<rparr>"

definition garbled_conflict_answer :: http_response where
  "garbled_conflict_answer = \<lparr>status = 409, reason = ''Conflict'', data = ''boom''\<rparr>"

definition created_answer :: http_response where
  "created_answer = \<lparr>status = 201, reason = ''Created'', data = widget_text\<rparr>"

definition server_error_answer :: http_response where
  "server_error_answer = \<lparr>status = 500, reason = ''Internal Server Error'', data = ''boom''\<rparr>"

definition size_patch :: pyval where
  "size_patch =
     PList [PDict [(''op'', PStr ''replace''), (''path'', PStr ''/spec/size''), (''value'', PInt 5)]]"

section \<open>Properties\<close>

subsection \<open>Helper facts: strings\<close>

lemma lower_Nil_iff: "lower s = [] \<longleftrightarrow> s = []"
  by (simp add: lower_def)

lemma get_plural_nonempty:
  "singular \<noteq> [] \<Longrightarrow> get_plural singular = Inr (pluralize_spec singular)"
  by (simp add: get_plural_def pluralize_spec_def index_last_def ends_in_def lower_Nil_iff Let_def)

lemma contains_starts_with: "starts_with s sub \<Longrightarrow> contains s sub"
  by (cases s) (auto elim: starts_with.elims)

lemma starts_with_append: "starts_with (sub @ q) sub"
  by (induction sub) simp_all

lemma contains_append_right: "contains (sub @ q) sub"
  by (simp add: contains_starts_with starts_with_append)

lemma contains_append_left: "contains s sub \<Longrightarrow> contains (p @ s) sub"
  by (induction p) simp_all

lemma contains_infix: "contains (p @ sub @ q) sub"
  by (simp add: contains_append_left contains_append_right)

lemma failure_message_carries:
  "contains (op @ [CHR 0x27] @ why @ [CHR 0x27] @ '' '' @ body) why"
  "contains (op @ [CHR 0x27] @ why @ [CHR 0x27] @ '' '' @ body) body"
proof -
  show "contains (op @ [CHR 0x27] @ why @ [CHR 0x27] @ '' '' @ body) why"
    using contains_infix [of "op @ [CHR 0x27]" why "[CHR 0x27] @ '' '' @ body"] by simp
  show "contains (op @ [CHR 0x27] @ why @ [CHR 0x27] @ '' '' @ body) body"
    using contains_infix [of "op @ [CHR 0x27] @ why @ [CHR 0x27] @ '' ''" body "[]"] by simp
qed

lemma rsplit1_without_separator: "sep \<notin> set s \<Longrightarrow> rsplit1 sep s = [s]"
  by (simp add: rsplit1_def)

lemma rsplit1_at_last_separator:
  assumes "sep \<in> set s"
  shows "\<exists>g v. rsplit1 sep s = [g, v] \<and> s = g @ sep # v \<and> sep \<notin> set v"
proof -
  let ?P = "\<lambda>c. c \<noteq> sep"
  let ?v = "rev (takeWhile ?P (rev s))"
  let ?g = "rev (tl (dropWhile ?P (rev s)))"
  from assms have "dropWhile ?P (rev s) \<noteq> []"
    by (simp add: dropWhile_eq_Nil_conv)
  moreover from this have "hd (dropWhile ?P (rev s)) = sep"
    using hd_dropWhile [of ?P "rev s"] by simp
  ultimately have cut: "dropWhile ?P (rev s) = sep # tl (dropWhile ?P (rev s))"
    by (cases "dropWhile ?P (rev s)") simp_all
  have "rev s = takeWhile ?P (rev s) @ dropWhile ?P (rev s)"
    by simp
  with cut have "rev s = takeWhile ?P (rev s) @ sep # tl (dropWhile ?P (rev s))"
    by simp
  then have "rev (rev s) = rev (takeWhile ?P (rev s) @ sep # tl (dropWhile ?P (rev s)))"
    by (rule arg_cong)
  then have whole: "s = ?g @ sep # ?v"
    by simp
  have "sep \<notin> set (takeWhile ?P (rev s))"
    by (auto dest: set_takeWhileD)
  then have clean: "sep \<notin> set ?v"
    by simp
  from assms have "rsplit1 sep s = [?g, ?v]"
    by (simp add: rsplit1_def)
  with whole clean show ?thesis
    by blast
qed

lemma earlier_separators_stay_left:
  assumes "s = g @ sep # v" and "sep \<notin> set v" and "1 < count_list s sep"
  shows "sep \<in> set g"
proof (rule ccontr)
  assume "sep \<notin> set g"
  with assms(1,2) have "count_list s sep = 1"
    by simp
  with assms(3) show False
    by simp
qed

subsection \<open>Helper facts: the events of the loader and of a create call\<close>

lemma api_requests_append: "api_requests (xs @ ys) = api_requests xs @ api_requests ys"
  by (induction xs rule: api_requests.induct) simp_all

lemma load_body_events:
  "load_body env obj file = (t, r) \<Longrightarrow> t = [] \<or> (\<exists>p. file = Some p \<and> t = [ReadFile p])"
  by (auto simp: load_body_def split: if_splits option.splits sum.splits)

lemma load_body_no_requests: "load_body env obj file = (t, r) \<Longrightarrow> api_requests t = []"
  by (auto dest: load_body_events)

lemma load_body_text: "load_body env (PStr resource) None = ([], Inr (PStr resource))"
  by (simp add: load_body_def)

lemma create_custom_object_requests:
  assumes "load_body env resource resource_as_yaml_file = (t, Inr body)"
  shows "api_requests (fst (create_custom_object env grp version plural ns resource
                              resource_as_yaml_file secrets))
           = [\<lparr>api_method = Create_namespaced_custom_object grp version ns plural body,
               header_params = default_headers (create_k8s_api_client env secrets)\<rparr>]"
  using assms load_body_no_requests [OF assms]
  by (simp add: create_custom_object_def Let_def api_requests_append split: sum.splits)

lemma create_custom_object_events:
  assumes "load_body env resource resource_as_yaml_file = (t, Inr body)"
  shows "fst (create_custom_object env grp version plural ns resource resource_as_yaml_file secrets)
           = t @ [ApiRequest \<lparr>api_method = Create_namespaced_custom_object grp version ns plural body,
                              header_params = default_headers (create_k8s_api_client env secrets)\<rparr>]"
  using assms
  by (simp add: create_custom_object_def Let_def split: sum.splits)

subsection \<open>Helper facts: applying a parsed document\<close>

lemma apply_from_json_document:
  "apply_from_json env resource secrets
     = eval_then (json_loads env resource) (\<lambda>obj. apply_document env obj resource secrets)"
  by (simp add: apply_from_json_def apply_document_def)

lemma apply_from_yaml_document:
  "apply_from_yaml env resource secrets
     = eval_then (yaml_safe_load env resource) (\<lambda>obj. apply_document env obj resource secrets)"
  by (simp add: apply_from_yaml_def apply_document_def)

lemma apply_document_missing:
  assumes "missing_key doc ''apiVersion'' \<or> missing_key doc ''kind''"
  shows "\<exists>e. apply_document env doc resource secrets = ([], Inl e)"
proof (cases doc)
  case (PDict kvs)
  with assms show ?thesis
    by (auto simp: apply_document_def eval_then_def py_get_def missing_key_def
        split: option.splits pyval.splits)
qed (simp_all add: apply_document_def eval_then_def py_get_def)

lemma apply_document_missing_apiVersion:
  assumes "metadata_absent_or_mapping kvs" and "map_of kvs ''apiVersion'' = None"
  shows "apply_document env (PDict kvs) resource secrets
           = ([], Inl (ActivityFailed ''missing apiVersion in resource''))"
  using assms
  by (auto simp: apply_document_def eval_then_def py_get_def metadata_absent_or_mapping_def
      split: option.splits pyval.splits)

lemma apply_document_missing_kind:
  assumes "metadata_absent_or_mapping kvs" and "map_of kvs ''kind'' = None"
  shows "apply_document env (PDict kvs) resource secrets
           = ([], Inl (ActivityFailed
                (if truthy (case map_of kvs ''apiVersion'' of Some v \<Rightarrow> v | None \<Rightarrow> PNone)
                 then ''missing kind in resource'' else ''missing apiVersion in resource'')))"
  using assms
  by (auto simp: apply_document_def eval_then_def py_get_def metadata_absent_or_mapping_def
      split: option.splits pyval.splits)

lemma apply_document_outcomes:
  "(\<exists>e. apply_document env doc resource secrets = ([], Inl e))
   \<or> (\<exists>g v p ns. document_namespace doc = Inr ns
         \<and> apply_document env doc resource secrets
             = create_custom_object env g v p ns (PStr resource) None secrets)"
  by (auto simp: apply_document_def document_namespace_def eval_then_def split: sum.splits)

lemma namespace_absent_default:
  "namespace_absent doc \<Longrightarrow> document_namespace doc = Inr ns \<Longrightarrow> ns = PStr ''default''"
  by (auto simp: namespace_absent_def document_namespace_def py_get_def
      split: pyval.splits option.splits)

lemma apply_document_default_namespace:
  assumes "namespace_absent doc"
    and "r \<in> set (api_requests (fst (apply_document env doc resource secrets)))"
  shows "\<exists>g v p b. api_method r = Create_namespaced_custom_object g v (PStr ''default'') p b"
proof -
  from apply_document_outcomes [of env doc resource secrets] show ?thesis
  proof
    assume "\<exists>e. apply_document env doc resource secrets = ([], Inl e)"
    with assms(2) show ?thesis
      by auto
  next
    assume "\<exists>g v p ns. document_namespace doc = Inr ns
         \<and> apply_document env doc resource secrets
             = create_custom_object env g v p ns (PStr resource) None secrets"
    then obtain g v p ns where ns: "document_namespace doc = Inr ns"
      and create: "apply_document env doc resource secrets
             = create_custom_object env g v p ns (PStr resource) None secrets"
      by blast
    from assms(1) ns have "ns = PStr ''default''"
      by (rule namespace_absent_default)
    with assms(2) create create_custom_object_requests [OF load_body_text, of env g v p ns resource secrets]
    show ?thesis
      by simp
  qed
qed

lemma document_namespace_total:
  "metadata_absent_or_mapping kvs \<Longrightarrow> \<exists>ns. document_namespace (PDict kvs) = Inr ns"
  by (auto simp: document_namespace_def py_get_def metadata_absent_or_mapping_def
      split: option.splits pyval.splits)

lemma apply_document_create:
  assumes "metadata_absent_or_mapping kvs"
    and "map_of kvs ''apiVersion'' = Some (PStr av)" and "rsplit1 CHR ''/'' av = [g, v]"
    and "av \<noteq> []"
    and "map_of kvs ''kind'' = Some (PStr k)" and "k \<noteq> []"
    and "document_namespace (PDict kvs) = Inr ns"
  shows "apply_document env (PDict kvs) resource secrets
           = create_custom_object env g v (pluralize_spec k) ns (PStr resource) None secrets"
  using assms
  by (auto simp: apply_document_def document_namespace_def eval_then_def py_get_def as_str_def
      unpack2_def get_plural_nonempty metadata_absent_or_mapping_def
      split: option.splits pyval.splits)

lemma apply_document_without_slash:
  assumes "metadata_absent_or_mapping kvs"
    and "map_of kvs ''apiVersion'' = Some (PStr av)" and "av \<noteq> []" and "CHR ''/'' \<notin> set av"
    and "map_of kvs ''kind'' = Some kind" and "truthy kind"
  shows "apply_document env (PDict kvs) resource secrets = ([], Inl ValueError)"
  using assms
  by (auto simp: apply_document_def eval_then_def py_get_def as_str_def unpack2_def
      rsplit1_without_separator metadata_absent_or_mapping_def
      split: option.splits pyval.splits)

lemma apply_document_widget:
  assumes "map_of kvs ''apiVersion'' = Some (PStr ''example.com/v1'')"
    and "map_of kvs ''kind'' = Some (PStr ''Widget'')"
    and "map_of kvs ''metadata'' = Some (PDict md)"
    and "map_of md ''namespace'' = Some (PStr ''ns1'')"
  shows "apply_document env (PDict kvs) resource secrets
           = create_custom_object env ''example.com'' ''v1'' ''widgets'' (PStr ''ns1'')
               (PStr resource) None secrets"
proof -
  have cut: "rsplit1 CHR ''/'' ''example.com/v1'' = [''example.com'', ''v1'']"
    by (simp add: rsplit1_def)
  have plural: "pluralize_spec ''Widget'' = ''widgets''"
    by (simp add: pluralize_spec_def ends_in_def lower_def lower_char_def)
  from assms have meta: "metadata_absent_or_mapping kvs"
    by (simp add: metadata_absent_or_mapping_def)
  from assms have ns: "document_namespace (PDict kvs) = Inr (PStr ''ns1'')"
    by (simp add: document_namespace_def py_get_def)
  from apply_document_create [OF meta assms(1) cut _ assms(2) _ ns, of env resource secrets] plural
  show ?thesis
    by simp
qed

lemma apply_document_default_create:
  assumes "namespace_absent (PDict kvs)" and "metadata_absent_or_mapping kvs"
    and "map_of kvs ''apiVersion'' = Some (PStr av)" and "CHR ''/'' \<in> set av"
    and "map_of kvs ''kind'' = Some (PStr k)" and "k \<noteq> []"
  shows "\<exists>g v p. fst (apply_document env (PDict kvs) resource secrets)
           = [ApiRequest \<lparr>api_method = Create_namespaced_custom_object g v (PStr ''default'') p
                                           (PStr resource),
                          header_params = default_headers (create_k8s_api_client env secrets)\<rparr>]"
proof -
  from assms(4) obtain g v where cut: "rsplit1 CHR ''/'' av = [g, v]"
    using rsplit1_at_last_separator by blast
  from assms(4) have nonempty: "av \<noteq> []"
    by auto
  from assms(2) obtain ns where ns: "document_namespace (PDict kvs) = Inr ns"
    using document_namespace_total by blast
  with assms(1) have "ns = PStr ''default''"
    by (rule namespace_absent_default)
  with apply_document_create [OF assms(2) assms(3) cut nonempty assms(5) assms(6) ns, of env resource secrets]
  show ?thesis
    by (simp add: create_custom_object_events [OF load_body_text])
qed

lemma demo_loads_known:
  "demo_loads widget_text = Inr widget_doc"
  "demo_loads gadget_text = Inr gadget_doc"
  "demo_loads no_slash_text = Inr no_slash_doc"
  "demo_loads two_slash_text = Inr two_slash_doc"
  by (simp_all add: demo_loads_def widget_text_def gadget_text_def null_metadata_text_def
      no_kind_text_def no_slash_text_def two_slash_text_def)

subsection \<open>The pluralizer\<close>

text \<open>
  Claim C3. On every non-empty kind string \<open>get_plural\<close> returns what the five steps
  of the specification compute (lower-case; \<open>endpoints\<close> unchanged; a final \<open>s\<close>
  gets \<open>es\<close>; a final \<open>y\<close> is replaced by \<open>ies\<close>; otherwise \<open>s\<close> is appended).
  The function is case-insensitive: two inputs with the same lower-case form have the
  same result. The five examples of the specification hold. It is pure: it takes no
  environment and has no events, its result depends on the argument alone.
\<close>

theorem get_plural_refines_spec:
  "(\<forall>singular. singular \<noteq> [] \<longrightarrow> get_plural singular = Inr (pluralize_spec singular))
   \<and> (\<forall>a b. lower a = lower b \<longrightarrow> get_plural a = get_plural b)
   \<and> get_plural ''pod'' = Inr ''pods''
   \<and> get_plural ''policy'' = Inr ''policies''
   \<and> get_plural ''endpoints'' = Inr ''endpoints''
   \<and> get_plural ''ingress'' = Inr ''ingresses''
   \<and> get_plural ''Deployment'' = Inr ''deployments''"
proof -
  have refines: "\<forall>singular. singular \<noteq> [] \<longrightarrow> get_plural singular = Inr (pluralize_spec singular)"
    by (simp add: get_plural_nonempty)
  have insensitive: "\<forall>a b. lower a = lower b \<longrightarrow> get_plural a = get_plural b"
    by (simp add: get_plural_def)
  have examples:
    "get_plural ''pod'' = Inr ''pods''"
    "get_plural ''policy'' = Inr ''policies''"
    "get_plural ''endpoints'' = Inr ''endpoints''"
    "get_plural ''ingress'' = Inr ''ingresses''"
    "get_plural ''Deployment'' = Inr ''deployments''"
    by (simp_all add: get_plural_def lower_def lower_char_def index_last_def)
  from refines insensitive examples show ?thesis
    by blast
qed

theorem get_plural_refines_spec_witness:
  "''Policy'' \<noteq> [] \<and> get_plural ''Policy'' = Inr (pluralize_spec ''Policy'')
   \<and> pluralize_spec ''Policy'' = ''policies''
   \<and> lower ''POD'' = lower ''pod'' \<and> get_plural ''POD'' = get_plural ''pod''"
proof -
  have same: "lower ''POD'' = lower ''pod''"
    by (simp add: lower_def lower_char_def)
  have spec: "pluralize_spec ''Policy'' = ''policies''"
    by (simp add: pluralize_spec_def ends_in_def lower_def lower_char_def)
  from get_plural_refines_spec have "get_plural ''Policy'' = Inr (pluralize_spec ''Policy'')"
    by simp
  moreover from get_plural_refines_spec same have "get_plural ''POD'' = get_plural ''pod''"
    by blast
  ultimately show ?thesis
    using same spec by simp
qed

text \<open>
  Claim C9. \<open>get_plural\<close> is partial at the empty string: there the indexing
  \<open>singular[-1]\<close> raises \<open>IndexError\<close>. On every non-empty string it returns a
  string.
\<close>

theorem get_plural_partial_at_empty:
  "get_plural [] = Inl IndexError
   \<and> (\<forall>singular. singular \<noteq> [] \<longrightarrow> (\<exists>plural. get_plural singular = Inr plural))"
proof -
  have "get_plural [] = Inl IndexError"
    by (simp add: get_plural_def lower_def index_last_def)
  moreover have "\<forall>singular. singular \<noteq> [] \<longrightarrow> (\<exists>plural. get_plural singular = Inr plural)"
    by (simp add: get_plural_nonempty)
  ultimately show ?thesis
    by simp
qed

theorem get_plural_partial_at_empty_witness:
  "''Widget'' \<noteq> [] \<and> get_plural ''Widget'' = Inr ''widgets''
   \<and> get_plural [] = Inl IndexError"
proof -
  from get_plural_partial_at_empty obtain plural where p: "get_plural ''Widget'' = Inr plural"
    by blast
  have "get_plural ''Widget'' = Inr ''widgets''"
    by (simp add: get_plural_def lower_def lower_char_def index_last_def)
  with p get_plural_partial_at_empty show ?thesis
    by simp
qed

subsection \<open>The resource loader\<close>

text \<open>
  Claim C5. \<open>load_body\<close>: with no object and no file path (\<open>None\<close> or the empty
  string) it fails with the \<open>ActivityFailed\<close> of invalid input; with no object and a
  path that is not an existing regular file it fails with an \<open>ActivityFailed\<close> whose
  message names the path; with an object it returns the object unchanged, whatever the
  file path, and touches nothing; otherwise it reads the file and returns what
  \<open>yaml.safe_load\<close> makes of its content (or the error of the read or of the parser),
  the read being its only event.
\<close>

theorem load_body_contract:
  "(path_unset file \<longrightarrow>
      load_body env PNone file
        = ([], Inl (ActivityFailed ''Either `body_as_object` or `body_as_yaml_file` must be set'')))
   \<and> (path \<noteq> [] \<longrightarrow> \<not> isfile env path \<longrightarrow>
      load_body env PNone (Some path)
        = ([], Inl (ActivityFailed (''Path '' @ [CHR 0x27] @ path @ [CHR 0x27]
                                     @ '' is not a valid resource file'')))
      \<and> contains (''Path '' @ [CHR 0x27] @ path @ [CHR 0x27] @ '' is not a valid resource file'') path)
   \<and> (obj \<noteq> PNone \<longrightarrow> load_body env obj file = ([], Inr obj))
   \<and> (path \<noteq> [] \<longrightarrow> isfile env path \<longrightarrow>
      load_body env PNone (Some path)
        = ([ReadFile path],
           case read_file env path of Inl e \<Rightarrow> Inl e | Inr content \<Rightarrow> yaml_safe_load env content))
   \<and> (fst (load_body env obj file) = []
        \<or> (\<exists>p. file = Some p \<and> obj = PNone \<and> fst (load_body env obj file) = [ReadFile p]))"
proof -
  have unset: "path_unset file \<longrightarrow>
      load_body env PNone file
        = ([], Inl (ActivityFailed ''Either `body_as_object` or `body_as_yaml_file` must be set''))"
    by (simp add: load_body_def)
  have not_a_file: "path \<noteq> [] \<longrightarrow> \<not> isfile env path \<longrightarrow>
      load_body env PNone (Some path)
        = ([], Inl (ActivityFailed (''Path '' @ [CHR 0x27] @ path @ [CHR 0x27]
                                     @ '' is not a valid resource file'')))"
    by (simp add: load_body_def path_unset_def)
  have names: "contains (''Path '' @ [CHR 0x27] @ path @ [CHR 0x27] @ '' is not a valid resource file'') path"
    using contains_infix [of "''Path '' @ [CHR 0x27]" path "[CHR 0x27] @ '' is not a valid resource file''"]
    by simp
  have object: "obj \<noteq> PNone \<longrightarrow> load_body env obj file = ([], Inr obj)"
    by (simp add: load_body_def)
  have reads: "path \<noteq> [] \<longrightarrow> isfile env path \<longrightarrow>
      load_body env PNone (Some path)
        = ([ReadFile path],
           case read_file env path of Inl e \<Rightarrow> Inl e | Inr content \<Rightarrow> yaml_safe_load env content)"
    by (simp add: load_body_def path_unset_def split: sum.splits)
  have events: "fst (load_body env obj file) = []
        \<or> (\<exists>p. file = Some p \<and> obj = PNone \<and> fst (load_body env obj file) = [ReadFile p])"
    by (auto simp: load_body_def split: option.splits sum.splits)
  from unset not_a_file names object reads events show ?thesis
    by blast
qed

theorem load_body_contract_witness:
  "path_unset None \<and> path_unset (Some [])
   \<and> load_body (demo_env created_answer) PNone None
       = ([], Inl (ActivityFailed ''Either `body_as_object` or `body_as_yaml_file` must be set''))
   \<and> \<not> isfile (demo_env created_answer) ''nowhere.yaml''
   \<and> load_body (demo_env created_answer) PNone (Some ''nowhere.yaml'')
       = ([], Inl (ActivityFailed ''Path 'nowhere.yaml' is not a valid resource file''))
   \<and> widget_doc \<noteq> PNone
   \<and> load_body (demo_env created_answer) widget_doc (Some ''nowhere.yaml'') = ([], Inr widget_doc)
   \<and> isfile (demo_env created_answer) ''widget.yaml''
   \<and> load_body (demo_env created_answer) PNone (Some ''widget.yaml'')
       = ([ReadFile ''widget.yaml''], Inr widget_doc)"
proof -
  let ?env = "demo_env created_answer"
  have unset: "path_unset None" "path_unset (Some [])"
    by (simp_all add: path_unset_def)
  have missing: "''nowhere.yaml'' \<noteq> []" "\<not> isfile ?env ''nowhere.yaml''"
    by (simp_all add: demo_env_def)
  have object: "widget_doc \<noteq> PNone"
    by (simp add: widget_doc_def)
  have present: "''widget.yaml'' \<noteq> []" "isfile ?env ''widget.yaml''"
    by (simp_all add: demo_env_def)
  have parsed: "(case read_file ?env ''widget.yaml'' of Inl e \<Rightarrow> Inl e
                 | Inr content \<Rightarrow> yaml_safe_load ?env content) = Inr widget_doc"
    by (simp add: demo_env_def demo_loads_def widget_text_def)
  note c = load_body_contract [of _ ?env]
  from c [of None "''nowhere.yaml''" widget_doc] unset(1)
  have r1: "load_body ?env PNone None
       = ([], Inl (ActivityFailed ''Either `body_as_object` or `body_as_yaml_file` must be set''))"
    by blast
  from c [of None "''nowhere.yaml''" widget_doc] missing
  have r2: "load_body ?env PNone (Some ''nowhere.yaml'')
       = ([], Inl (ActivityFailed ''Path 'nowhere.yaml' is not a valid resource file''))"
    by simp
  from c [of "Some ''nowhere.yaml''" "''nowhere.yaml''" widget_doc] object
  have r3: "load_body ?env widget_doc (Some ''nowhere.yaml'') = ([], Inr widget_doc)"
    by blast
  from c [of None "''widget.yaml''" widget_doc] present parsed
  have r4: "load_body ?env PNone (Some ''widget.yaml'') = ([ReadFile ''widget.yaml''], Inr widget_doc)"
    by simp
  from unset missing object present r1 r2 r3 r4 show ?thesis
    by simp
qed

subsection \<open>Create on conflict\<close>

text \<open>
  Claim C1, as stated, fails: on a 409 the create operations return
  \<open>json.loads(x.body)\<close>, and \<open>json.loads\<close> raises when the body of the answer is
  not JSON. Here the server answers 409 with the body \<open>boom\<close>: both operations end in
  the decoding error.
\<close>

theorem create_conflict_undecodable_body_raises:
  "status garbled_conflict_answer = 409
   \<and> load_body (demo_env garbled_conflict_answer) widget_doc None = ([], Inr widget_doc)
   \<and> json_loads (demo_env garbled_conflict_answer) (data garbled_conflict_answer)
       = Inl JSONDecodeError
   \<and> snd (create_custom_object (demo_env garbled_conflict_answer) ''example.com'' ''v1''
            ''widgets'' (PStr ''ns1'') widget_doc None ())
       = Inl JSONDecodeError
   \<and> snd (create_cluster_custom_object (demo_env garbled_conflict_answer) ''example.com'' ''v1''
            ''widgets'' widget_doc None ())
       = Inl JSONDecodeError"
proof -
  have loaded: "load_body (demo_env garbled_conflict_answer) widget_doc None = ([], Inr widget_doc)"
    by (simp add: load_body_def widget_doc_def)
  have garbled: "demo_loads ''boom'' = Inl JSONDecodeError"
    by (simp add: demo_loads_def widget_text_def gadget_text_def null_metadata_text_def
        no_kind_text_def no_slash_text_def two_slash_text_def status_text_def)
  have namespaced: "snd (create_custom_object (demo_env garbled_conflict_answer) ''example.com''
            ''v1'' ''widgets'' (PStr ''ns1'') widget_doc None ()) = Inl JSONDecodeError"
    using loaded garbled
    by (simp add: create_custom_object_def call_api_def Let_def demo_env_def
        garbled_conflict_answer_def)
  have cluster: "snd (create_cluster_custom_object (demo_env garbled_conflict_answer)
            ''example.com'' ''v1'' ''widgets'' widget_doc None ()) = Inl JSONDecodeError"
    using loaded garbled
    by (simp add: create_cluster_custom_object_def call_api_def Let_def demo_env_def
        garbled_conflict_answer_def)
  from loaded garbled namespaced cluster show ?thesis
    by (simp add: garbled_conflict_answer_def demo_env_def)
qed

text \<open>
  Claim C1, amended. When the body has been loaded, the create request goes out (the
  body, and for the namespaced operation the namespace, is not \<open>None\<close>) and the
  server answers it with status 409, \<open>create_custom_object\<close> and
  \<open>create_cluster_custom_object\<close> raise no \<open>ActivityFailed\<close>: the outcome of the
  call is \<open>json.loads\<close> of the body of the 409 answer, that is the decoded body when
  the body decodes and the decoding error otherwise. The value returned is whatever the
  server put in that body; the code does not look at it. The create request is the only
  API request of the call: nothing is sent that would update the existing object.
\<close>

theorem create_conflict_outcome:
  assumes "load_body env resource resource_as_yaml_file = (t, Inr body)"
    and "body \<noteq> PNone"
    and "hdrs = default_headers (create_k8s_api_client env secrets)"
  shows
    "(\<forall>req.
        ns \<noteq> PNone \<longrightarrow>
        req = \<lparr>api_method = Create_namespaced_custom_object grp version ns plural body,
               header_params = hdrs\<rparr> \<longrightarrow>
        status (respond env req) = 409 \<longrightarrow>
          create_custom_object env grp version plural ns resource resource_as_yaml_file secrets
            = (t @ [ApiRequest req], json_loads env (data (respond env req)))
          \<and> api_requests (t @ [ApiRequest req]) = [req]
          \<and> (\<forall>obj. json_loads env (data (respond env req)) = Inr obj \<longrightarrow>
                snd (create_custom_object env grp version plural ns resource
                       resource_as_yaml_file secrets) = Inr obj)
          \<and> (\<forall>e. json_loads env (data (respond env req)) = Inl e \<longrightarrow>
                snd (create_custom_object env grp version plural ns resource
                       resource_as_yaml_file secrets) = Inl e))
     \<and> (\<forall>req.
        req = \<lparr>api_method = Create_cluster_custom_object grp version plural body,
               header_params = hdrs\<rparr> \<longrightarrow>
        status (respond env req) = 409 \<longrightarrow>
          create_cluster_custom_object env grp version plural resource resource_as_yaml_file secrets
            = (t @ [ApiRequest req], json_loads env (data (respond env req)))
          \<and> api_requests (t @ [ApiRequest req]) = [req]
          \<and> (\<forall>obj. json_loads env (data (respond env req)) = Inr obj \<longrightarrow>
                snd (create_cluster_custom_object env grp version plural resource
                       resource_as_yaml_file secrets) = Inr obj)
          \<and> (\<forall>e. json_loads env (data (respond env req)) = Inl e \<longrightarrow>
                snd (create_cluster_custom_object env grp version plural resource
                       resource_as_yaml_file secrets) = Inl e))"
proof -
  from assms(1) have quiet: "api_requests t = []"
    by (rule load_body_no_requests)
  show ?thesis
    using assms quiet
    by (simp add: create_custom_object_def create_cluster_custom_object_def call_api_def Let_def
        api_requests_append)
qed

theorem create_conflict_outcome_witness:
  "load_body (demo_env conflict_answer) widget_doc None = ([], Inr widget_doc)
   \<and> widget_doc \<noteq> PNone \<and> PStr ''ns1'' \<noteq> PNone
   \<and> status (respond (demo_env conflict_answer)
        \<lparr>api_method = Create_namespaced_custom_object ''example.com'' ''v1'' (PStr ''ns1'') ''widgets'' widget_doc,
         header_params = Map.empty\<rparr>) = 409
   \<and> json_loads (demo_env conflict_answer) (data conflict_answer) = Inr status_doc
   \<and> create_custom_object (demo_env conflict_answer) ''example.com'' ''v1'' ''widgets'' (PStr ''ns1'')
        widget_doc None ()
      = ([ApiRequest \<lparr>api_method = Create_namespaced_custom_object ''example.com'' ''v1'' (PStr ''ns1'') ''widgets'' widget_doc,
                      header_params = Map.empty\<rparr>], Inr status_doc)
   \<and> create_cluster_custom_object (demo_env conflict_answer) ''example.com'' ''v1'' ''widgets''
        widget_doc None ()
      = ([ApiRequest \<lparr>api_method = Create_cluster_custom_object ''example.com'' ''v1'' ''widgets'' widget_doc,
                      header_params = Map.empty\<rparr>], Inr status_doc)"
proof -
  have loaded: "load_body (demo_env conflict_answer) widget_doc None = ([], Inr widget_doc)"
    by (simp add: load_body_def widget_doc_def)
  have given: "widget_doc \<noteq> PNone"
    by (simp add: widget_doc_def)
  have hdrs: "Map.empty = default_headers (create_k8s_api_client (demo_env conflict_answer) ())"
    by (simp add: demo_env_def)
  have decoded: "json_loads (demo_env conflict_answer) status_text = Inr status_doc"
    by (simp add: demo_env_def demo_loads_def status_text_def widget_text_def gadget_text_def
        null_metadata_text_def no_kind_text_def no_slash_text_def two_slash_text_def)
  have answer: "respond (demo_env conflict_answer) req = conflict_answer" for req
    by (simp add: demo_env_def)
  from create_conflict_outcome [OF loaded given hdrs, of "PStr ''ns1''" "''example.com''" "''v1''" "''widgets''"]
    decoded answer loaded given
  show ?thesis
    by (simp add: conflict_answer_def)
qed

subsection \<open>Failures of the API server\<close>

lemma failed_withI:
  "snd outcome = Inl (ActivityFailed (op @ [CHR 0x27] @ reason answer @ [CHR 0x27] @ '' ''
                                       @ data answer))
   \<Longrightarrow> failed_with outcome answer"
  unfolding failed_with_def using failure_message_carries by blast

lemma create_custom_object_failure:
  assumes "load_body env resource resource_as_yaml_file = (t, Inr body)"
    and "answer = respond env \<lparr>api_method = Create_namespaced_custom_object grp version ns plural body,
                                header_params = default_headers (create_k8s_api_client env secrets)\<rparr>"
    and "\<not> (200 \<le> status answer \<and> status answer \<le> 299)" and "status answer \<noteq> 409"
  shows "failed_with (create_custom_object env grp version plural ns resource
                        resource_as_yaml_file secrets) answer"
  using assms
  by (intro failed_withI [where op = "''Failed to create custom resource object: ''"])
    (auto simp: create_custom_object_def call_api_def Let_def)

lemma delete_failure:
  "answer = respond env \<lparr>api_method = Delete_namespaced_custom_object grp version ns plural name,
                          header_params = default_headers (create_k8s_api_client env secrets)\<rparr>
   \<Longrightarrow> \<not> (200 \<le> status answer \<and> status answer \<le> 299)
   \<Longrightarrow> failed_with (delete_custom_object env grp version plural name ns secrets) answer"
  "answer' = respond env \<lparr>api_method = Delete_cluster_custom_object grp version plural name,
                          header_params = default_headers (create_k8s_api_client env secrets)\<rparr>
   \<Longrightarrow> \<not> (200 \<le> status answer' \<and> status answer' \<le> 299)
   \<Longrightarrow> failed_with (delete_cluster_custom_object env grp version plural name secrets) answer'"
  by (intro failed_withI [where op = "''Failed to delete custom resource object: ''"],
      auto simp: delete_custom_object_def delete_cluster_custom_object_def call_api_def Let_def)+

lemma patch_failure:
  assumes "load_body env resource resource_as_yaml_file = (t, Inr body)"
    and "hdrs = (default_headers (create_k8s_api_client env secrets))
                  (''Content-Type'' \<mapsto> ''application/json-patch+json'')"
  shows
    "answer = respond env \<lparr>api_method = Patch_namespaced_custom_object grp version ns plural name body,
                            header_params = hdrs\<rparr>
     \<Longrightarrow> \<not> (200 \<le> status answer \<and> status answer \<le> 299)
     \<Longrightarrow> failed_with (patch_custom_object env grp version plural name ns force resource
                          resource_as_yaml_file secrets) answer"
    "answer' = respond env \<lparr>api_method = Patch_cluster_custom_object grp version plural name body,
                            header_params = hdrs\<rparr>
     \<Longrightarrow> \<not> (200 \<le> status answer' \<and> status answer' \<le> 299)
     \<Longrightarrow> failed_with (patch_cluster_custom_object env grp version plural name force resource
                          resource_as_yaml_file secrets) answer'"
  using assms
  by (intro failed_withI [where op = "''Failed to patch custom resource object: ''"],
      auto simp: patch_custom_object_def patch_cluster_custom_object_def set_default_header_def
        call_api_def Let_def)+

lemma replace_failure:
  assumes "load_body env resource resource_as_yaml_file = (t, Inr body)"
    and "hdrs = default_headers (create_k8s_api_client env secrets)"
  shows
    "answer = respond env \<lparr>api_method = Replace_namespaced_custom_object grp version ns plural name body force,
                            header_params = hdrs\<rparr>
     \<Longrightarrow> \<not> (200 \<le> status answer \<and> status answer \<le> 299)
     \<Longrightarrow> failed_with (replace_custom_object env grp version plural name ns force resource
                          resource_as_yaml_file secrets) answer"
    "answer' = respond env \<lparr>api_method = Replace_cluster_custom_object grp version plural name body force,
                            header_params = hdrs\<rparr>
     \<Longrightarrow> \<not> (200 \<le> status answer' \<and> status answer' \<le> 299)
     \<Longrightarrow> failed_with (replace_cluster_custom_object env grp version plural name force resource
                          resource_as_yaml_file secrets) answer'"
  using assms
  by (intro failed_withI [where op = "''Failed to replace custom resource object: ''"],
      auto simp: replace_custom_object_def replace_cluster_custom_object_def call_api_def Let_def)+

text \<open>
  Claim C2. \<open>create_cluster_custom_object\<close> breaks it: the message of its
  \<open>ActivityFailed\<close> is a plain string, not an f-string, so it is the same text for
  every answer and holds neither the reason nor the body. Here the server answers 500
  \<open>Internal Server Error\<close> with body \<open>boom\<close>; the namespaced create, given the same
  answer, raises the message with both.
\<close>

theorem create_cluster_failure_message_is_literal:
  "snd (create_cluster_custom_object (demo_env server_error_answer) ''example.com'' ''v1''
          ''widgets'' widget_doc None ())
     = Inl (ActivityFailed ''Failed to create custom resource object: '{x.reason}' {x.body}'')
   \<and> \<not> contains ''Failed to create custom resource object: '{x.reason}' {x.body}''
          (reason server_error_answer)
   \<and> \<not> contains ''Failed to create custom resource object: '{x.reason}' {x.body}''
          (data server_error_answer)
   \<and> snd (create_custom_object (demo_env server_error_answer) ''example.com'' ''v1''
          ''widgets'' (PStr ''ns1'') widget_doc None ())
     = Inl (ActivityFailed ''Failed to create custom resource object: 'Internal Server Error' boom'')"
proof -
  have loaded: "load_body (demo_env server_error_answer) widget_doc None = ([], Inr widget_doc)"
    by (simp add: load_body_def widget_doc_def)
  have cluster: "snd (create_cluster_custom_object (demo_env server_error_answer) ''example.com''
          ''v1'' ''widgets'' widget_doc None ())
     = Inl (ActivityFailed ''Failed to create custom resource object: '{x.reason}' {x.body}'')"
    using loaded
    by (simp add: create_cluster_custom_object_def call_api_def Let_def demo_env_def
        server_error_answer_def)
  have namespaced: "snd (create_custom_object (demo_env server_error_answer) ''example.com''
          ''v1'' ''widgets'' (PStr ''ns1'') widget_doc None ())
     = Inl (ActivityFailed ''Failed to create custom resource object: 'Internal Server Error' boom'')"
    using loaded
    by (simp add: create_custom_object_def call_api_def Let_def demo_env_def
        server_error_answer_def)
  have no_reason: "\<not> contains ''Failed to create custom resource object: '{x.reason}' {x.body}''
          (reason server_error_answer)"
    by (simp add: server_error_answer_def)
  have no_body: "\<not> contains ''Failed to create custom resource object: '{x.reason}' {x.body}''
          (data server_error_answer)"
    by (simp add: server_error_answer_def)
  from cluster namespaced no_reason no_body show ?thesis
    by simp
qed

subsection \<open>Patch and replace: content type and the force flag\<close>

text \<open>
  Claim C8. Every API request issued by \<open>patch_custom_object\<close> and by
  \<open>patch_cluster_custom_object\<close> carries the header \<open>Content-Type:
  application/json-patch+json\<close> (so not a merge-patch content type), whatever default
  headers the client had; and once the body is loaded the call issues exactly one
  request, a patch request.
\<close>

theorem patch_sends_json_patch_content_type:
  "(\<forall>r. ApiRequest r \<in> set (fst (patch_custom_object env grp version plural name ns force
                                       resource resource_as_yaml_file secrets)) \<longrightarrow>
        header_params r ''Content-Type'' = Some ''application/json-patch+json''
        \<and> header_params r ''Content-Type'' \<noteq> Some ''application/merge-patch+json'')
   \<and> (\<forall>r. ApiRequest r \<in> set (fst (patch_cluster_custom_object env grp version plural name force
                                       resource resource_as_yaml_file secrets)) \<longrightarrow>
        header_params r ''Content-Type'' = Some ''application/json-patch+json''
        \<and> header_params r ''Content-Type'' \<noteq> Some ''application/merge-patch+json'')
   \<and> (\<forall>t body. load_body env resource resource_as_yaml_file = (t, Inr body) \<longrightarrow>
        (\<exists>r. api_requests (fst (patch_custom_object env grp version plural name ns force
                                   resource resource_as_yaml_file secrets)) = [r]
             \<and> api_method r = Patch_namespaced_custom_object grp version ns plural name body
             \<and> header_params r ''Content-Type'' = Some ''application/json-patch+json'')
        \<and> (\<exists>r. api_requests (fst (patch_cluster_custom_object env grp version plural name force
                                   resource resource_as_yaml_file secrets)) = [r]
             \<and> api_method r = Patch_cluster_custom_object grp version plural name body
             \<and> header_params r ''Content-Type'' = Some ''application/json-patch+json''))"
proof -
  have ns_events:
    "\<forall>r. ApiRequest r \<in> set (fst (patch_custom_object env grp version plural name ns force
                                       resource resource_as_yaml_file secrets)) \<longrightarrow>
        header_params r ''Content-Type'' = Some ''application/json-patch+json''
        \<and> header_params r ''Content-Type'' \<noteq> Some ''application/merge-patch+json''"
    by (auto simp: patch_custom_object_def set_default_header_def Let_def
        split: prod.splits sum.splits dest: load_body_events)
  have cluster_events:
    "\<forall>r. ApiRequest r \<in> set (fst (patch_cluster_custom_object env grp version plural name force
                                       resource resource_as_yaml_file secrets)) \<longrightarrow>
        header_params r ''Content-Type'' = Some ''application/json-patch+json''
        \<and> header_params r ''Content-Type'' \<noteq> Some ''application/merge-patch+json''"
    by (auto simp: patch_cluster_custom_object_def set_default_header_def Let_def
        split: prod.splits sum.splits dest: load_body_events)
  have issued:
    "\<forall>t body. load_body env resource resource_as_yaml_file = (t, Inr body) \<longrightarrow>
        (\<exists>r. api_requests (fst (patch_custom_object env grp version plural name ns force
                                   resource resource_as_yaml_file secrets)) = [r]
             \<and> api_method r = Patch_namespaced_custom_object grp version ns plural name body
             \<and> header_params r ''Content-Type'' = Some ''application/json-patch+json'')
        \<and> (\<exists>r. api_requests (fst (patch_cluster_custom_object env grp version plural name force
                                   resource resource_as_yaml_file secrets)) = [r]
             \<and> api_method r = Patch_cluster_custom_object grp version plural name body
             \<and> header_params r ''Content-Type'' = Some ''application/json-patch+json'')"
    by (auto simp: patch_custom_object_def patch_cluster_custom_object_def
        set_default_header_def Let_def api_requests_append
        split: sum.splits dest: load_body_no_requests)
  from ns_events cluster_events issued show ?thesis
    by blast
qed

theorem patch_sends_json_patch_content_type_witness:
  "load_body (demo_env created_answer) size_patch None = ([], Inr size_patch)
   \<and> ApiRequest \<lparr>api_method = Patch_namespaced_custom_object ''example.com'' ''v1'' ''ns1'' ''widgets'' ''w1'' size_patch,
                   header_params = [''Content-Type'' \<mapsto> ''application/json-patch+json'']\<rparr>
       \<in> set (fst (patch_custom_object (demo_env created_answer) ''example.com'' ''v1'' ''widgets''
                      ''w1'' ''ns1'' False size_patch None ()))
   \<and> header_params \<lparr>api_method = Patch_namespaced_custom_object ''example.com'' ''v1'' ''ns1'' ''widgets'' ''w1'' size_patch,
                      header_params = [''Content-Type'' \<mapsto> ''application/json-patch+json'']\<rparr>
        ''Content-Type'' = Some ''application/json-patch+json''
   \<and> ApiRequest \<lparr>api_method = Patch_cluster_custom_object ''example.com'' ''v1'' ''widgets'' ''w1'' size_patch,
                   header_params = [''Content-Type'' \<mapsto> ''application/json-patch+json'']\<rparr>
       \<in> set (fst (patch_cluster_custom_object (demo_env created_answer) ''example.com'' ''v1''
                      ''widgets'' ''w1'' False size_patch None ()))"
proof -
  let ?env = "demo_env created_answer"
  let ?r = "\<lparr>api_method = Patch_namespaced_custom_object ''example.com'' ''v1'' ''ns1'' ''widgets'' ''w1'' size_patch,
             header_params = [''Content-Type'' \<mapsto> ''application/json-patch+json'']\<rparr>"
  let ?c = "\<lparr>api_method = Patch_cluster_custom_object ''example.com'' ''v1'' ''widgets'' ''w1'' size_patch,
             header_params = [''Content-Type'' \<mapsto> ''application/json-patch+json'']\<rparr>"
  have loaded: "load_body ?env size_patch None = ([], Inr size_patch)"
    by (simp add: load_body_def size_patch_def)
  have issued: "ApiRequest ?r \<in> set (fst (patch_custom_object ?env ''example.com'' ''v1'' ''widgets''
                      ''w1'' ''ns1'' False size_patch None ()))"
    using loaded
    by (simp add: patch_custom_object_def set_default_header_def call_api_def Let_def
        demo_env_def created_answer_def split: sum.splits)
  have issued_cluster: "ApiRequest ?c \<in> set (fst (patch_cluster_custom_object ?env ''example.com''
                      ''v1'' ''widgets'' ''w1'' False size_patch None ()))"
    using loaded
    by (simp add: patch_cluster_custom_object_def set_default_header_def call_api_def Let_def
        demo_env_def created_answer_def split: sum.splits)
  from patch_sends_json_patch_content_type
    [of ?env "''example.com''" "''v1''" "''widgets''" "''w1''" "''ns1''" False size_patch None "()"]
    issued
  have "header_params ?r ''Content-Type'' = Some ''application/json-patch+json''"
    by blast
  with loaded issued issued_cluster show ?thesis
    by simp
qed

text \<open>
  Claim C6. The patch operations take \<open>force\<close> and never use it: a call with
  \<open>force = True\<close> and the same call with \<open>force = False\<close> have the same events and
  the same result, so they issue the same request. The docstrings of both functions say
  that force will re-acquire conflicting fields. The request issued with
  \<open>force = True\<close> for a concrete patch is evaluated: the flag is not in it.
\<close>

theorem patch_ignores_force:
  "patch_custom_object env grp version plural name ns True resource resource_as_yaml_file secrets
     = patch_custom_object env grp version plural name ns False resource resource_as_yaml_file secrets
   \<and> patch_cluster_custom_object env grp version plural name True resource resource_as_yaml_file secrets
     = patch_cluster_custom_object env grp version plural name False resource resource_as_yaml_file secrets
   \<and> api_requests (fst (patch_custom_object (demo_env created_answer) ''example.com'' ''v1''
                          ''widgets'' ''w1'' ''ns1'' True size_patch None ()))
     = [\<lparr>api_method = Patch_namespaced_custom_object ''example.com'' ''v1'' ''ns1'' ''widgets''
                         ''w1'' size_patch,
         header_params = [''Content-Type'' \<mapsto> ''application/json-patch+json'']\<rparr>]"
proof -
  have same: "patch_custom_object env grp version plural name ns True resource
                 resource_as_yaml_file secrets
     = patch_custom_object env grp version plural name ns False resource resource_as_yaml_file secrets"
    "patch_cluster_custom_object env grp version plural name True resource resource_as_yaml_file secrets
     = patch_cluster_custom_object env grp version plural name False resource resource_as_yaml_file secrets"
    by (simp_all add: patch_custom_object_def patch_cluster_custom_object_def)
  have loaded: "load_body (demo_env created_answer) size_patch None = ([], Inr size_patch)"
    by (simp add: load_body_def size_patch_def)
  have "api_requests (fst (patch_custom_object (demo_env created_answer) ''example.com'' ''v1''
                          ''widgets'' ''w1'' ''ns1'' True size_patch None ()))
     = [\<lparr>api_method = Patch_namespaced_custom_object ''example.com'' ''v1'' ''ns1'' ''widgets''
                         ''w1'' size_patch,
         header_params = [''Content-Type'' \<mapsto> ''application/json-patch+json'']\<rparr>]"
    using loaded
    by (simp add: patch_custom_object_def set_default_header_def call_api_def Let_def
        demo_env_def created_answer_def split: sum.splits)
  with same show ?thesis
    by simp
qed

text \<open>
  The replace operations do pass the flag to the client method (\<open>force=force\<close>):
  once the body is loaded, the one call they make on the client holds \<open>force\<close>.
  What the client does with the keyword is the library's.
\<close>

lemma replace_forwards_force:
  assumes "load_body env resource resource_as_yaml_file = (t, Inr body)"
  shows "api_requests (fst (replace_custom_object env grp version plural name ns force
                              resource resource_as_yaml_file secrets))
           = [\<lparr>api_method = Replace_namespaced_custom_object grp version ns plural name body force,
               header_params = default_headers (create_k8s_api_client env secrets)\<rparr>]"
    and "api_requests (fst (replace_cluster_custom_object env grp version plural name force
                              resource resource_as_yaml_file secrets))
           = [\<lparr>api_method = Replace_cluster_custom_object grp version plural name body force,
               header_params = default_headers (create_k8s_api_client env secrets)\<rparr>]"
  using assms load_body_no_requests [OF assms]
  by (simp_all add: replace_custom_object_def replace_cluster_custom_object_def Let_def
      api_requests_append split: sum.splits)

subsection \<open>Documents without apiVersion or kind\<close>

text \<open>
  Claim C4, as stated, fails: the namespace is read from \<open>metadata\<close> before
  \<open>apiVersion\<close> and \<open>kind\<close> are checked, so a document without \<open>apiVersion\<close>
  whose \<open>metadata\<close> is \<open>null\<close> ends in \<open>AttributeError\<close>, not in
  \<open>ActivityFailed\<close>.
\<close>

theorem apply_null_metadata_attribute_error:
  "json_loads (demo_env created_answer) null_metadata_text = Inr null_metadata_doc
   \<and> yaml_safe_load (demo_env created_answer) null_metadata_text = Inr null_metadata_doc
   \<and> missing_key null_metadata_doc ''apiVersion''
   \<and> apply_from_json (demo_env created_answer) null_metadata_text () = ([], Inl AttributeError)
   \<and> apply_from_yaml (demo_env created_answer) null_metadata_text () = ([], Inl AttributeError)"
proof -
  have parsed: "demo_loads null_metadata_text = Inr null_metadata_doc"
    by (simp add: demo_loads_def null_metadata_text_def widget_text_def gadget_text_def)
  have "apply_document (demo_env created_answer) null_metadata_doc null_metadata_text ()
          = ([], Inl AttributeError)"
    by (simp add: apply_document_def eval_then_def py_get_def null_metadata_doc_def)
  with parsed show ?thesis
    by (simp add: apply_from_json_document apply_from_yaml_document eval_then_def demo_env_def
        missing_key_def null_metadata_doc_def)
qed

text \<open>
  Claim C4, amended. For every parsed document, a missing \<open>apiVersion\<close> or
  \<open>kind\<close> makes \<open>apply_from_json\<close> and \<open>apply_from_yaml\<close> fail with no event at
  all, so before any API request. When the document is a dictionary whose
  \<open>metadata\<close> entry is absent or a dictionary, the failure is the \<open>ActivityFailed\<close>
  of invalid input: \<open>missing apiVersion in resource\<close> when \<open>apiVersion\<close> is
  missing, and, when \<open>kind\<close> is missing, \<open>missing kind in resource\<close> unless the
  check of \<open>apiVersion\<close>, which comes first, has already failed.
\<close>

theorem apply_rejects_missing_fields:
  "(\<forall>doc. (json_loads env resource = Inr doc \<longrightarrow>
           missing_key doc ''apiVersion'' \<or> missing_key doc ''kind'' \<longrightarrow>
           (\<exists>e. apply_from_json env resource secrets = ([], Inl e)))
        \<and> (yaml_safe_load env resource = Inr doc \<longrightarrow>
           missing_key doc ''apiVersion'' \<or> missing_key doc ''kind'' \<longrightarrow>
           (\<exists>e. apply_from_yaml env resource secrets = ([], Inl e))))
   \<and> (\<forall>kvs. metadata_absent_or_mapping kvs \<longrightarrow> map_of kvs ''apiVersion'' = None \<longrightarrow>
        (json_loads env resource = Inr (PDict kvs) \<longrightarrow>
           apply_from_json env resource secrets
             = ([], Inl (ActivityFailed ''missing apiVersion in resource'')))
        \<and> (yaml_safe_load env resource = Inr (PDict kvs) \<longrightarrow>
           apply_from_yaml env resource secrets
             = ([], Inl (ActivityFailed ''missing apiVersion in resource''))))
   \<and> (\<forall>kvs. metadata_absent_or_mapping kvs \<longrightarrow> map_of kvs ''kind'' = None \<longrightarrow>
        (json_loads env resource = Inr (PDict kvs) \<longrightarrow>
           apply_from_json env resource secrets
             = ([], Inl (ActivityFailed
                  (if truthy (case map_of kvs ''apiVersion'' of Some v \<Rightarrow> v | None \<Rightarrow> PNone)
                   then ''missing kind in resource'' else ''missing apiVersion in resource''))))
        \<and> (yaml_safe_load env resource = Inr (PDict kvs) \<longrightarrow>
           apply_from_yaml env resource secrets
             = ([], Inl (ActivityFailed
                  (if truthy (case map_of kvs ''apiVersion'' of Some v \<Rightarrow> v | None \<Rightarrow> PNone)
                   then ''missing kind in resource'' else ''missing apiVersion in resource'')))))"
proof -
  have before_any_call:
    "\<forall>doc. (json_loads env resource = Inr doc \<longrightarrow>
           missing_key doc ''apiVersion'' \<or> missing_key doc ''kind'' \<longrightarrow>
           (\<exists>e. apply_from_json env resource secrets = ([], Inl e)))
        \<and> (yaml_safe_load env resource = Inr doc \<longrightarrow>
           missing_key doc ''apiVersion'' \<or> missing_key doc ''kind'' \<longrightarrow>
           (\<exists>e. apply_from_yaml env resource secrets = ([], Inl e)))"
    by (simp add: apply_from_json_document apply_from_yaml_document eval_then_def
        apply_document_missing)
  have no_apiVersion:
    "\<forall>kvs. metadata_absent_or_mapping kvs \<longrightarrow> map_of kvs ''apiVersion'' = None \<longrightarrow>
        (json_loads env resource = Inr (PDict kvs) \<longrightarrow>
           apply_from_json env resource secrets
             = ([], Inl (ActivityFailed ''missing apiVersion in resource'')))
        \<and> (yaml_safe_load env resource = Inr (PDict kvs) \<longrightarrow>
           apply_from_yaml env resource secrets
             = ([], Inl (ActivityFailed ''missing apiVersion in resource'')))"
    by (simp add: apply_from_json_document apply_from_yaml_document eval_then_def
        apply_document_missing_apiVersion)
  have no_kind:
    "\<forall>kvs. metadata_absent_or_mapping kvs \<longrightarrow> map_of kvs ''kind'' = None \<longrightarrow>
        (json_loads env resource = Inr (PDict kvs) \<longrightarrow>
           apply_from_json env resource secrets
             = ([], Inl (ActivityFailed
                  (if truthy (case map_of kvs ''apiVersion'' of Some v \<Rightarrow> v | None \<Rightarrow> PNone)
                   then ''missing kind in resource'' else ''missing apiVersion in resource''))))
        \<and> (yaml_safe_load env resource = Inr (PDict kvs) \<longrightarrow>
           apply_from_yaml env resource secrets
             = ([], Inl (ActivityFailed
                  (if truthy (case map_of kvs ''apiVersion'' of Some v \<Rightarrow> v | None \<Rightarrow> PNone)
                   then ''missing kind in resource'' else ''missing apiVersion in resource''))))"
    by (simp add: apply_from_json_document apply_from_yaml_document eval_then_def
        apply_document_missing_kind)
  from before_any_call no_apiVersion no_kind show ?thesis
    by blast
qed

theorem apply_rejects_missing_fields_witness:
  "json_loads (demo_env created_answer) no_kind_text = Inr no_kind_doc
   \<and> yaml_safe_load (demo_env created_answer) no_kind_text = Inr no_kind_doc
   \<and> no_kind_doc = PDict [(''apiVersion'', PStr ''example.com/v1'')]
   \<and> metadata_absent_or_mapping [(''apiVersion'', PStr ''example.com/v1'')]
   \<and> map_of [(''apiVersion'', PStr ''example.com/v1'')] ''kind'' = None
   \<and> missing_key no_kind_doc ''kind''
   \<and> apply_from_json (demo_env created_answer) no_kind_text ()
       = ([], Inl (ActivityFailed ''missing kind in resource''))
   \<and> apply_from_yaml (demo_env created_answer) no_kind_text ()
       = ([], Inl (ActivityFailed ''missing kind in resource''))"
proof -
  let ?env = "demo_env created_answer"
  let ?kvs = "[(''apiVersion'', PStr ''example.com/v1'')]"
  have parsed: "json_loads ?env no_kind_text = Inr (PDict ?kvs)"
    "yaml_safe_load ?env no_kind_text = Inr (PDict ?kvs)"
    by (simp_all add: demo_env_def demo_loads_def no_kind_text_def no_kind_doc_def
        widget_text_def gadget_text_def null_metadata_text_def)
  have shape: "metadata_absent_or_mapping ?kvs" "map_of ?kvs ''kind'' = None"
    by (simp_all add: metadata_absent_or_mapping_def)
  from apply_rejects_missing_fields [of ?env no_kind_text "()"] parsed shape
  have "apply_from_json ?env no_kind_text ()
          = ([], Inl (ActivityFailed
               (if truthy (case map_of ?kvs ''apiVersion'' of Some v \<Rightarrow> v | None \<Rightarrow> PNone)
                then ''missing kind in resource'' else ''missing apiVersion in resource'')))"
    and "apply_from_yaml ?env no_kind_text ()
          = ([], Inl (ActivityFailed
               (if truthy (case map_of ?kvs ''apiVersion'' of Some v \<Rightarrow> v | None \<Rightarrow> PNone)
                then ''missing kind in resource'' else ''missing apiVersion in resource'')))"
    by blast+
  with parsed shape show ?thesis
    by (simp add: no_kind_doc_def missing_key_def)
qed

subsection \<open>Applying a document end to end\<close>

text \<open>
  The create call of a document. A document with \<open>apiVersion\<close>
  \<open>example.com/v1\<close>, \<open>kind\<close> \<open>Widget\<close> and \<open>metadata.namespace\<close>
  \<open>ns1\<close> (whatever else it holds) makes \<open>apply_from_json\<close> and
  \<open>apply_from_yaml\<close> perform exactly one event, a create request with group
  \<open>example.com\<close>, version \<open>v1\<close>, namespace \<open>ns1\<close>, plural \<open>widgets\<close>
  and, as body, the text the caller gave. For every document without
  \<open>metadata.namespace\<close>, every request the call issues is a create request in the
  namespace \<open>default\<close>; and the call does issue one when \<open>metadata\<close> is absent or a
  dictionary, \<open>apiVersion\<close> is a string with a \<open>/\<close> and \<open>kind\<close> is a non-empty
  string.
\<close>

lemma apply_create_call:
  "(\<forall>kvs md.
      map_of kvs ''apiVersion'' = Some (PStr ''example.com/v1'') \<longrightarrow>
      map_of kvs ''kind'' = Some (PStr ''Widget'') \<longrightarrow>
      map_of kvs ''metadata'' = Some (PDict md) \<longrightarrow>
      map_of md ''namespace'' = Some (PStr ''ns1'') \<longrightarrow>
        (json_loads env resource = Inr (PDict kvs) \<longrightarrow>
           fst (apply_from_json env resource secrets)
             = [ApiRequest \<lparr>api_method = Create_namespaced_custom_object ''example.com'' ''v1''
                                             (PStr ''ns1'') ''widgets'' (PStr resource),
                            header_params = default_headers (create_k8s_api_client env secrets)\<rparr>])
        \<and> (yaml_safe_load env resource = Inr (PDict kvs) \<longrightarrow>
           fst (apply_from_yaml env resource secrets)
             = [ApiRequest \<lparr>api_method = Create_namespaced_custom_object ''example.com'' ''v1''
                                             (PStr ''ns1'') ''widgets'' (PStr resource),
                            header_params = default_headers (create_k8s_api_client env secrets)\<rparr>]))
   \<and> (\<forall>doc r.
      namespace_absent doc \<longrightarrow>
        (json_loads env resource = Inr doc \<longrightarrow>
           r \<in> set (api_requests (fst (apply_from_json env resource secrets))) \<longrightarrow>
           (\<exists>g v p b. api_method r = Create_namespaced_custom_object g v (PStr ''default'') p b))
        \<and> (yaml_safe_load env resource = Inr doc \<longrightarrow>
           r \<in> set (api_requests (fst (apply_from_yaml env resource secrets))) \<longrightarrow>
           (\<exists>g v p b. api_method r = Create_namespaced_custom_object g v (PStr ''default'') p b)))
   \<and> (\<forall>kvs av k.
      namespace_absent (PDict kvs) \<longrightarrow> metadata_absent_or_mapping kvs \<longrightarrow>
      map_of kvs ''apiVersion'' = Some (PStr av) \<longrightarrow> CHR ''/'' \<in> set av \<longrightarrow>
      map_of kvs ''kind'' = Some (PStr k) \<longrightarrow> k \<noteq> [] \<longrightarrow>
        (json_loads env resource = Inr (PDict kvs) \<longrightarrow>
           (\<exists>g v p. fst (apply_from_json env resource secrets)
              = [ApiRequest \<lparr>api_method = Create_namespaced_custom_object g v (PStr ''default'') p
                                              (PStr resource),
                             header_params = default_headers (create_k8s_api_client env secrets)\<rparr>]))
        \<and> (yaml_safe_load env resource = Inr (PDict kvs) \<longrightarrow>
           (\<exists>g v p. fst (apply_from_yaml env resource secrets)
              = [ApiRequest \<lparr>api_method = Create_namespaced_custom_object g v (PStr ''default'') p
                                              (PStr resource),
                             header_params = default_headers (create_k8s_api_client env secrets)\<rparr>])))"
proof -
  have widget:
    "\<forall>kvs md.
      map_of kvs ''apiVersion'' = Some (PStr ''example.com/v1'') \<longrightarrow>
      map_of kvs ''kind'' = Some (PStr ''Widget'') \<longrightarrow>
      map_of kvs ''metadata'' = Some (PDict md) \<longrightarrow>
      map_of md ''namespace'' = Some (PStr ''ns1'') \<longrightarrow>
        (json_loads env resource = Inr (PDict kvs) \<longrightarrow>
           fst (apply_from_json env resource secrets)
             = [ApiRequest \<lparr>api_method = Create_namespaced_custom_object ''example.com'' ''v1''
                                             (PStr ''ns1'') ''widgets'' (PStr resource),
                            header_params = default_headers (create_k8s_api_client env secrets)\<rparr>])
        \<and> (yaml_safe_load env resource = Inr (PDict kvs) \<longrightarrow>
           fst (apply_from_yaml env resource secrets)
             = [ApiRequest \<lparr>api_method = Create_namespaced_custom_object ''example.com'' ''v1''
                                             (PStr ''ns1'') ''widgets'' (PStr resource),
                            header_params = default_headers (create_k8s_api_client env secrets)\<rparr>])"
    by (simp add: apply_from_json_document apply_from_yaml_document eval_then_def
        apply_document_widget create_custom_object_events [OF load_body_text])
  have default_ns:
    "\<forall>doc r.
      namespace_absent doc \<longrightarrow>
        (json_loads env resource = Inr doc \<longrightarrow>
           r \<in> set (api_requests (fst (apply_from_json env resource secrets))) \<longrightarrow>
           (\<exists>g v p b. api_method r = Create_namespaced_custom_object g v (PStr ''default'') p b))
        \<and> (yaml_safe_load env resource = Inr doc \<longrightarrow>
           r \<in> set (api_requests (fst (apply_from_yaml env resource secrets))) \<longrightarrow>
           (\<exists>g v p b. api_method r = Create_namespaced_custom_object g v (PStr ''default'') p b))"
    using apply_document_default_namespace [of _ _ env resource secrets]
    by (simp add: apply_from_json_document apply_from_yaml_document eval_then_def)
  have issued:
    "\<forall>kvs av k.
      namespace_absent (PDict kvs) \<longrightarrow> metadata_absent_or_mapping kvs \<longrightarrow>
      map_of kvs ''apiVersion'' = Some (PStr av) \<longrightarrow> CHR ''/'' \<in> set av \<longrightarrow>
      map_of kvs ''kind'' = Some (PStr k) \<longrightarrow> k \<noteq> [] \<longrightarrow>
        (json_loads env resource = Inr (PDict kvs) \<longrightarrow>
           (\<exists>g v p. fst (apply_from_json env resource secrets)
              = [ApiRequest \<lparr>api_method = Create_namespaced_custom_object g v (PStr ''default'') p
                                              (PStr resource),
                             header_params = default_headers (create_k8s_api_client env secrets)\<rparr>]))
        \<and> (yaml_safe_load env resource = Inr (PDict kvs) \<longrightarrow>
           (\<exists>g v p. fst (apply_from_yaml env resource secrets)
              = [ApiRequest \<lparr>api_method = Create_namespaced_custom_object g v (PStr ''default'') p
                                              (PStr resource),
                             header_params = default_headers (create_k8s_api_client env secrets)\<rparr>]))"
    using apply_document_default_create [of _ _ _ env resource secrets]
    by (simp add: apply_from_json_document apply_from_yaml_document eval_then_def)
  from widget default_ns issued show ?thesis
    by blast
qed

lemma apply_create_call_example:
  "json_loads (demo_env created_answer) widget_text = Inr widget_doc
   \<and> yaml_safe_load (demo_env created_answer) widget_text = Inr widget_doc
   \<and> fst (apply_from_json (demo_env created_answer) widget_text ())
       = [ApiRequest \<lparr>api_method = Create_namespaced_custom_object ''example.com'' ''v1''
                                       (PStr ''ns1'') ''widgets'' (PStr widget_text),
                      header_params = Map.empty\<rparr>]
   \<and> fst (apply_from_yaml (demo_env created_answer) widget_text ())
       = [ApiRequest \<lparr>api_method = Create_namespaced_custom_object ''example.com'' ''v1''
                                       (PStr ''ns1'') ''widgets'' (PStr widget_text),
                      header_params = Map.empty\<rparr>]
   \<and> json_loads (demo_env created_answer) gadget_text = Inr gadget_doc
   \<and> namespace_absent gadget_doc
   \<and> fst (apply_from_json (demo_env created_answer) gadget_text ())
       = [ApiRequest \<lparr>api_method = Create_namespaced_custom_object ''example.com'' ''v1''
                                       (PStr ''default'') ''gadgets'' (PStr gadget_text),
                      header_params = Map.empty\<rparr>]
   \<and> (\<exists>g v p b. Create_namespaced_custom_object ''example.com'' ''v1'' (PStr ''default'')
                    ''gadgets'' (PStr gadget_text)
                  = Create_namespaced_custom_object g v (PStr ''default'') p b)"
proof -
  let ?env = "demo_env created_answer"
  let ?kvs = "[(''apiVersion'', PStr ''example.com/v1''), (''kind'', PStr ''Widget''),
               (''metadata'', PDict [(''namespace'', PStr ''ns1'')]),
               (''spec'', PDict [(''size'', PInt 3)])]"
  let ?gadget = "\<lparr>api_method = Create_namespaced_custom_object ''example.com'' ''v1''
                                    (PStr ''default'') ''gadgets'' (PStr gadget_text),
                   header_params = Map.empty\<rparr>"
  have parsed: "json_loads ?env widget_text = Inr (PDict ?kvs)"
    "yaml_safe_load ?env widget_text = Inr (PDict ?kvs)"
    by (simp_all add: demo_env_def demo_loads_known widget_doc_def)
  have fields: "map_of ?kvs ''apiVersion'' = Some (PStr ''example.com/v1'')"
    "map_of ?kvs ''kind'' = Some (PStr ''Widget'')"
    "map_of ?kvs ''metadata'' = Some (PDict [(''namespace'', PStr ''ns1'')])"
    "map_of [(''namespace'', PStr ''ns1'')] ''namespace'' = Some (PStr ''ns1'')"
    by simp_all
  have client: "default_headers (create_k8s_api_client ?env ()) = Map.empty"
    by (simp add: demo_env_def)
  note claim = apply_create_call [of ?env _ "()"]
  from claim [of widget_text] parsed fields
  have widget_json: "fst (apply_from_json ?env widget_text ())
       = [ApiRequest \<lparr>api_method = Create_namespaced_custom_object ''example.com'' ''v1''
                                       (PStr ''ns1'') ''widgets'' (PStr widget_text),
                      header_params = default_headers (create_k8s_api_client ?env ())\<rparr>]"
    by blast
  from claim [of widget_text] parsed fields
  have widget_yaml: "fst (apply_from_yaml ?env widget_text ())
       = [ApiRequest \<lparr>api_method = Create_namespaced_custom_object ''example.com'' ''v1''
                                       (PStr ''ns1'') ''widgets'' (PStr widget_text),
                      header_params = default_headers (create_k8s_api_client ?env ())\<rparr>]"
    by blast
  have gadget_parsed: "json_loads ?env gadget_text = Inr gadget_doc"
    by (simp add: demo_env_def demo_loads_known)
  have absent: "namespace_absent gadget_doc"
    by (simp add: namespace_absent_def gadget_doc_def)
  have gadget: "fst (apply_from_json ?env gadget_text ()) = [ApiRequest ?gadget]"
  proof -
    have cut: "rsplit1 CHR ''/'' ''example.com/v1'' = [''example.com'', ''v1'']"
      by (simp add: rsplit1_def)
    have plural: "pluralize_spec ''Gadget'' = ''gadgets''"
      by (simp add: pluralize_spec_def ends_in_def lower_def lower_char_def)
    have "apply_document ?env gadget_doc gadget_text ()
            = create_custom_object ?env ''example.com'' ''v1'' (pluralize_spec ''Gadget'')
                (PStr ''default'') (PStr gadget_text) None ()"
      unfolding gadget_doc_def
      by (rule apply_document_create [OF _ _ cut])
        (simp_all add: metadata_absent_or_mapping_def document_namespace_def py_get_def)
    with plural gadget_parsed client show ?thesis
      by (simp add: apply_from_json_document eval_then_def
          create_custom_object_events [OF load_body_text])
  qed
  then have "?gadget \<in> set (api_requests (fst (apply_from_json ?env gadget_text ())))"
    by simp
  with claim [of gadget_text] gadget_parsed absent
  have "\<exists>g v p b. api_method ?gadget = Create_namespaced_custom_object g v (PStr ''default'') p b"
    by blast
  with parsed widget_json widget_yaml client gadget_parsed absent gadget show ?thesis
    by (simp add: widget_doc_def)
qed

text \<open>
  Claim C7. \<open>apply_from_json\<close> and \<open>apply_from_yaml\<close> parse the document only to
  read its coordinates: the body they hand to \<open>create_custom_object\<close> is
  \<open>resource\<close>, the unparsed text, where the parameter is declared
  \<open>Dict[str, Any]\<close>. For the document of the specification the one create call has
  group \<open>example.com\<close>, version \<open>v1\<close>, namespace \<open>ns1\<close> and plural
  \<open>widgets\<close>, and its body is the string, which is not the document the text
  parses to.
\<close>

theorem apply_body_is_unparsed_text:
  "json_loads (demo_env created_answer) widget_text = Inr widget_doc
   \<and> yaml_safe_load (demo_env created_answer) widget_text = Inr widget_doc
   \<and> fst (apply_from_json (demo_env created_answer) widget_text ())
       = [ApiRequest \<lparr>api_method = Create_namespaced_custom_object ''example.com'' ''v1''
                                       (PStr ''ns1'') ''widgets'' (PStr widget_text),
                      header_params = Map.empty\<rparr>]
   \<and> fst (apply_from_yaml (demo_env created_answer) widget_text ())
       = [ApiRequest \<lparr>api_method = Create_namespaced_custom_object ''example.com'' ''v1''
                                       (PStr ''ns1'') ''widgets'' (PStr widget_text),
                      header_params = Map.empty\<rparr>]
   \<and> PStr widget_text \<noteq> widget_doc"
proof -
  have "PStr widget_text \<noteq> widget_doc"
    by (simp add: widget_doc_def)
  with apply_create_call_example show ?thesis
    by simp
qed

subsection \<open>The split of apiVersion\<close>

text \<open>
  Claim C10. In a document that passes the checks before the split (a dictionary whose
  \<open>metadata\<close> is absent or a dictionary and whose \<open>kind\<close> is present and truthy),
  an \<open>apiVersion\<close> that is a non-empty string without \<open>/\<close> makes
  \<open>apply_from_json\<close> and \<open>apply_from_yaml\<close> end in \<open>ValueError\<close>, with no event,
  and not in \<open>ActivityFailed\<close>. An \<open>apiVersion\<close> with one or more \<open>/\<close> is split
  at the last one: the version has no \<open>/\<close>, the group keeps every earlier \<open>/\<close>,
  and with a non-empty string as \<open>kind\<close> the call goes on to
  \<open>create_custom_object\<close> with that group and version.
\<close>

theorem apiVersion_split_behaviour:
  "(\<forall>kvs av kind.
      metadata_absent_or_mapping kvs \<longrightarrow>
      map_of kvs ''apiVersion'' = Some (PStr av) \<longrightarrow> av \<noteq> [] \<longrightarrow> CHR ''/'' \<notin> set av \<longrightarrow>
      map_of kvs ''kind'' = Some kind \<longrightarrow> truthy kind \<longrightarrow>
        (json_loads env resource = Inr (PDict kvs) \<longrightarrow>
           apply_from_json env resource secrets = ([], Inl ValueError))
        \<and> (yaml_safe_load env resource = Inr (PDict kvs) \<longrightarrow>
           apply_from_yaml env resource secrets = ([], Inl ValueError)))
   \<and> (\<forall>kvs av k.
      metadata_absent_or_mapping kvs \<longrightarrow>
      map_of kvs ''apiVersion'' = Some (PStr av) \<longrightarrow> CHR ''/'' \<in> set av \<longrightarrow>
      map_of kvs ''kind'' = Some (PStr k) \<longrightarrow> k \<noteq> [] \<longrightarrow>
        (\<exists>g v p ns.
           unpack2 (rsplit1 CHR ''/'' av) = Inr (g, v)
           \<and> av = g @ ''/'' @ v \<and> CHR ''/'' \<notin> set v
           \<and> (1 < count_list av CHR ''/'' \<longrightarrow> CHR ''/'' \<in> set g)
           \<and> get_plural k = Inr p
           \<and> (json_loads env resource = Inr (PDict kvs) \<longrightarrow>
                apply_from_json env resource secrets
                  = create_custom_object env g v p ns (PStr resource) None secrets)
           \<and> (yaml_safe_load env resource = Inr (PDict kvs) \<longrightarrow>
                apply_from_yaml env resource secrets
                  = create_custom_object env g v p ns (PStr resource) None secrets)))"
proof -
  have without:
    "\<forall>kvs av kind.
      metadata_absent_or_mapping kvs \<longrightarrow>
      map_of kvs ''apiVersion'' = Some (PStr av) \<longrightarrow> av \<noteq> [] \<longrightarrow> CHR ''/'' \<notin> set av \<longrightarrow>
      map_of kvs ''kind'' = Some kind \<longrightarrow> truthy kind \<longrightarrow>
        (json_loads env resource = Inr (PDict kvs) \<longrightarrow>
           apply_from_json env resource secrets = ([], Inl ValueError))
        \<and> (yaml_safe_load env resource = Inr (PDict kvs) \<longrightarrow>
           apply_from_yaml env resource secrets = ([], Inl ValueError))"
    by (simp add: apply_from_json_document apply_from_yaml_document eval_then_def
        apply_document_without_slash)
  have "\<exists>g v p ns.
           unpack2 (rsplit1 CHR ''/'' av) = Inr (g, v)
           \<and> av = g @ ''/'' @ v \<and> CHR ''/'' \<notin> set v
           \<and> (1 < count_list av CHR ''/'' \<longrightarrow> CHR ''/'' \<in> set g)
           \<and> get_plural k = Inr p
           \<and> (json_loads env resource = Inr (PDict kvs) \<longrightarrow>
                apply_from_json env resource secrets
                  = create_custom_object env g v p ns (PStr resource) None secrets)
           \<and> (yaml_safe_load env resource = Inr (PDict kvs) \<longrightarrow>
                apply_from_yaml env resource secrets
                  = create_custom_object env g v p ns (PStr resource) None secrets)"
    if meta: "metadata_absent_or_mapping kvs"
      and av: "map_of kvs ''apiVersion'' = Some (PStr av)" and slash: "CHR ''/'' \<in> set av"
      and kind: "map_of kvs ''kind'' = Some (PStr k)" and k: "k \<noteq> []"
    for kvs av k
  proof -
    from slash obtain g v where cut: "rsplit1 CHR ''/'' av = [g, v]"
      and whole: "av = g @ CHR ''/'' # v" and clean: "CHR ''/'' \<notin> set v"
      using rsplit1_at_last_separator by blast
    from slash have nonempty: "av \<noteq> []"
      by auto
    from meta obtain ns where ns: "document_namespace (PDict kvs) = Inr ns"
      using document_namespace_total by blast
    have doc: "apply_document env (PDict kvs) resource secrets
           = create_custom_object env g v (pluralize_spec k) ns (PStr resource) None secrets"
      by (rule apply_document_create [OF meta av cut nonempty kind k ns])
    have earlier: "1 < count_list av CHR ''/'' \<longrightarrow> CHR ''/'' \<in> set g"
      using earlier_separators_stay_left [OF whole clean] by blast
    from cut whole clean earlier doc get_plural_nonempty [OF k] show ?thesis
      by (intro exI [of _ g] exI [of _ v] exI [of _ "pluralize_spec k"] exI [of _ ns])
        (simp add: unpack2_def apply_from_json_document apply_from_yaml_document eval_then_def)
  qed
  with without show ?thesis
    by blast
qed

theorem apiVersion_split_behaviour_witness:
  "json_loads (demo_env created_answer) no_slash_text = Inr no_slash_doc
   \<and> no_slash_doc = PDict [(''apiVersion'', PStr ''v1''), (''kind'', PStr ''Widget'')]
   \<and> metadata_absent_or_mapping [(''apiVersion'', PStr ''v1''), (''kind'', PStr ''Widget'')]
   \<and> ''v1'' \<noteq> [] \<and> CHR ''/'' \<notin> set ''v1'' \<and> truthy (PStr ''Widget'')
   \<and> apply_from_json (demo_env created_answer) no_slash_text () = ([], Inl ValueError)
   \<and> json_loads (demo_env created_answer) two_slash_text = Inr two_slash_doc
   \<and> CHR ''/'' \<in> set ''apps/example.com/v1'' \<and> 1 < count_list ''apps/example.com/v1'' CHR ''/''
   \<and> unpack2 (rsplit1 CHR ''/'' ''apps/example.com/v1'') = Inr (''apps/example.com'', ''v1'')
   \<and> apply_from_json (demo_env created_answer) two_slash_text ()
       = create_custom_object (demo_env created_answer) ''apps/example.com'' ''v1'' ''widgets''
           (PStr ''default'') (PStr two_slash_text) None ()"
proof -
  let ?env = "demo_env created_answer"
  let ?one = "[(''apiVersion'', PStr ''v1''), (''kind'', PStr ''Widget'')]"
  let ?two = "[(''apiVersion'', PStr ''apps/example.com/v1''), (''kind'', PStr ''Widget'')]"
  have parsed: "json_loads ?env no_slash_text = Inr (PDict ?one)"
    "json_loads ?env two_slash_text = Inr (PDict ?two)"
    by (simp_all add: demo_env_def demo_loads_known no_slash_doc_def two_slash_doc_def)
  have shape: "metadata_absent_or_mapping ?one" "metadata_absent_or_mapping ?two"
    by (simp_all add: metadata_absent_or_mapping_def)
  have cut: "unpack2 (rsplit1 CHR ''/'' ''apps/example.com/v1'') = Inr (''apps/example.com'', ''v1'')"
    by (simp add: rsplit1_def unpack2_def)
  have plural: "get_plural ''Widget'' = Inr ''widgets''"
    by (simp add: get_plural_def lower_def lower_char_def index_last_def)
  have ns: "document_namespace (PDict ?two) = Inr (PStr ''default'')"
    by (simp add: document_namespace_def py_get_def)
  note claim = apiVersion_split_behaviour [of ?env _ "()"]
  from claim [of no_slash_text] parsed(1) shape(1)
  have no_slash: "apply_from_json ?env no_slash_text () = ([], Inl ValueError)"
    by simp
  have fields: "map_of ?two ''apiVersion'' = Some (PStr ''apps/example.com/v1'')"
    "CHR ''/'' \<in> set ''apps/example.com/v1''"
    "map_of ?two ''kind'' = Some (PStr ''Widget'')" "''Widget'' \<noteq> []"
    by simp_all
  note split = claim [of two_slash_text, THEN conjunct2, rule_format, OF shape(2) fields]
  from split obtain g v p ns' where
    "unpack2 (rsplit1 CHR ''/'' ''apps/example.com/v1'') = Inr (g, v)"
    and "get_plural ''Widget'' = Inr p"
    and "json_loads ?env two_slash_text = Inr (PDict ?two) \<longrightarrow>
           apply_from_json ?env two_slash_text ()
             = create_custom_object ?env g v p ns' (PStr two_slash_text) None ()"
    by (elim exE conjE)
  with cut plural parsed(2)
  have "apply_from_json ?env two_slash_text ()
          = create_custom_object ?env ''apps/example.com'' ''v1'' ''widgets'' ns'
              (PStr two_slash_text) None ()"
    by simp
  moreover have "apply_from_json ?env two_slash_text ()
          = create_custom_object ?env ''apps/example.com'' ''v1'' ''widgets'' (PStr ''default'')
              (PStr two_slash_text) None ()"
  proof -
    have "rsplit1 CHR ''/'' ''apps/example.com/v1'' = [''apps/example.com'', ''v1'']"
      by (simp add: rsplit1_def)
    from apply_document_create [OF shape(2) _ this _ _ _ ns, of "''Widget''" ?env two_slash_text "()"]
      plural parsed(2) get_plural_nonempty [of "''Widget''"]
    show ?thesis
      by (simp add: apply_from_json_document eval_then_def)
  qed
  ultimately show ?thesis
    using parsed shape cut no_slash
    by (simp add: no_slash_doc_def two_slash_doc_def)
qed

end
